theory Spec2Isabelle
  imports Complex_Main
begin

section \<open>JavaScript numbers\<close>

text \<open>
  The plugin \<^verbatim>\<open>src/plugins/layers/useRBN.js\<close> computes with JavaScript numbers.
  A number is modelled as a finite value or one of the three special values. Finite
  arithmetic is exact (a real number, no rounding and no overflow) and the sign of zero
  is not tracked; the special values follow IEEE 754 as JavaScript does: every
  operation on \<open>NaN\<close> gives \<open>NaN\<close>, every comparison with \<open>NaN\<close> is false, and a
  division by zero gives an infinity or \<open>NaN\<close> instead of raising. Where a branch of
  the code depends on the rounding of a result, the operation is the rounded one
  (\<open>jssub64\<close> below, in the guards of the path generator).
\<close>

datatype jsnum = Fin real | PInf | NInf | NaN

fun isFinite :: "jsnum \<Rightarrow> bool" where
  "isFinite (Fin _) = True"
| "isFinite _ = False"

fun jsneg :: "jsnum \<Rightarrow> jsnum" where
  "jsneg (Fin a) = Fin (- a)"
| "jsneg PInf = NInf"
| "jsneg NInf = PInf"
| "jsneg NaN = NaN"

fun jsadd :: "jsnum \<Rightarrow> jsnum \<Rightarrow> jsnum" where
  "jsadd (Fin a) (Fin b) = Fin (a + b)"
| "jsadd NaN _ = NaN"
| "jsadd _ NaN = NaN"
| "jsadd PInf NInf = NaN"
| "jsadd NInf PInf = NaN"
| "jsadd PInf _ = PInf"
| "jsadd _ PInf = PInf"
| "jsadd NInf _ = NInf"
| "jsadd _ NInf = NInf"

definition jssub :: "jsnum \<Rightarrow> jsnum \<Rightarrow> jsnum" where
  "jssub a b = jsadd a (jsneg b)"

text \<open>The sign of a number: \<open>1\<close>, \<open>-1\<close>, or \<open>0\<close> for zero and for \<open>NaN\<close>.\<close>

fun jssign :: "jsnum \<Rightarrow> int" where
  "jssign (Fin a) = (if 0 < a then 1 else if a < 0 then - 1 else 0)"
| "jssign PInf = 1"
| "jssign NInf = - 1"
| "jssign NaN = 0"

definition inf_of_sign :: "int \<Rightarrow> jsnum" where
  "inf_of_sign s = (if 0 < s then PInf else if s < 0 then NInf else NaN)"

fun jsmul :: "jsnum \<Rightarrow> jsnum \<Rightarrow> jsnum" where
  "jsmul (Fin a) (Fin b) = Fin (a * b)"
| "jsmul NaN _ = NaN"
| "jsmul _ NaN = NaN"
| "jsmul a b = inf_of_sign (jssign a * jssign b)"

fun jsdiv :: "jsnum \<Rightarrow> jsnum \<Rightarrow> jsnum" where
  "jsdiv (Fin a) (Fin b) = (if b = 0 then inf_of_sign (jssign (Fin a)) else Fin (a / b))"
| "jsdiv NaN _ = NaN"
| "jsdiv _ NaN = NaN"
| "jsdiv (Fin a) _ = Fin 0"
| "jsdiv a (Fin b) = inf_of_sign (jssign a * (if b < 0 then - 1 else 1))"
| "jsdiv _ _ = NaN"

fun jsabs :: "jsnum \<Rightarrow> jsnum" where
  "jsabs (Fin a) = Fin \<bar>a\<bar>"
| "jsabs NaN = NaN"
| "jsabs _ = PInf"

fun jslt :: "jsnum \<Rightarrow> jsnum \<Rightarrow> bool" where
  "jslt (Fin a) (Fin b) = (a < b)"
| "jslt NaN _ = False"
| "jslt _ NaN = False"
| "jslt NInf b = (b \<noteq> NInf)"
| "jslt a PInf = (a \<noteq> PInf)"
| "jslt _ _ = False"

text \<open>\<open>a >= b\<close> and \<open>a > b\<close> are comparisons of their own: with \<open>NaN\<close> both are false.\<close>

definition jsgt :: "jsnum \<Rightarrow> jsnum \<Rightarrow> bool" where
  "jsgt a b = jslt b a"

definition jsge :: "jsnum \<Rightarrow> jsnum \<Rightarrow> bool" where
  "jsge a b = (a \<noteq> NaN \<and> b \<noteq> NaN \<and> \<not> jslt a b)"

text \<open>
  Rounding to a double (IEEE 754 binary64, round to nearest, ties to even): the nearest
  multiple of the unit in the last place of the binade of \<open>x\<close>, which is \<open>2\<close> to the
  power \<open>e - 52\<close> for the exponent \<open>e\<close> of \<open>x\<close>, at least \<open>-1022\<close> (below that the
  doubles are subnormal and equally spaced); a result of \<open>2\<close> to the power 1024 or more
  is an infinity.
\<close>

definition round_even :: "real \<Rightarrow> int" where
  "round_even q =
     (let f = \<lfloor>q\<rfloor>
      in if q - of_int f < 1 / 2 then f
         else if 1 / 2 < q - of_int f then f + 1
         else if even f then f else f + 1)"

definition binary64 :: "real \<Rightarrow> jsnum" where
  "binary64 x =
     (if x = 0 then Fin 0
      else
        let e = max \<lfloor>log 2 \<bar>x\<bar>\<rfloor> (- 1022);
            u = (2::real) powr (of_int e - 52);
            m = of_int (round_even (\<bar>x\<bar> / u)) * u
        in if (2::real) powr 1024 \<le> m then (if 0 < x then PInf else NInf)
           else Fin (sgn x * m))"

text \<open>\<^verbatim>\<open>a - b\<close> on doubles: the exact difference, rounded to a double.\<close>

definition jssub64 :: "jsnum \<Rightarrow> jsnum \<Rightarrow> jsnum" where
  "jssub64 a b = (case jssub a b of Fin x \<Rightarrow> binary64 x | v \<Rightarrow> v)"

section \<open>Grid locator: \<^verbatim>\<open>gridToLatLon\<close>\<close>

text \<open>
  A string is a list of characters. \<^verbatim>\<open>toUpperCase\<close> is modelled on ASCII, where it maps
  \<open>a..z\<close> to \<open>A..Z\<close> and keeps the length; other characters are left as they are.
\<close>

definition toUpperChar :: "char \<Rightarrow> char" where
  "toUpperChar c =
     (if 97 \<le> (of_char c :: nat) \<and> (of_char c :: nat) \<le> 122
      then char_of ((of_char c :: nat) - 32) else c)"

definition toUpperCase :: "string \<Rightarrow> string" where
  "toUpperCase s = map toUpperChar s"

text \<open>\<^verbatim>\<open>s.charCodeAt(i)\<close>: the code of the character, \<open>NaN\<close> past the end.\<close>

definition charCodeAt :: "string \<Rightarrow> nat \<Rightarrow> jsnum" where
  "charCodeAt s i = (if i < length s then Fin (real (of_char (s ! i) :: nat)) else NaN)"

text \<open>
  \<^verbatim>\<open>parseInt(s[i])\<close>: the argument is one character, or \<^verbatim>\<open>undefined\<close> past the end.
  \<^verbatim>\<open>parseInt\<close> of a one-character string is the digit's value when the character is a
  decimal digit, and \<open>NaN\<close> otherwise (a sign or a blank alone has no digits).
\<close>

definition parseIntAt :: "string \<Rightarrow> nat \<Rightarrow> jsnum" where
  "parseIntAt s i =
     (if i < length s \<and> 48 \<le> (of_char (s ! i) :: nat) \<and> (of_char (s ! i) :: nat) \<le> 57
      then Fin (real ((of_char (s ! i) :: nat) - 48)) else NaN)"

record latlon =
  lat :: jsnum
  lon :: jsnum

text \<open>
  \<^verbatim>\<open>gridToLatLon(grid)\<close>, lines 31-51. \<open>None\<close> is the \<^verbatim>\<open>null\<close> it returns; the empty
  string is the falsy string of \<^verbatim>\<open>!grid\<close>. \<open>lon1\<close> and \<open>lat1\<close> are the source's
  \<^verbatim>\<open>lon\<close> and \<^verbatim>\<open>lat\<close>, and the additions keep the source's order.
\<close>

definition gridToLatLon :: "string \<Rightarrow> latlon option" where
  "gridToLatLon grid0 =
     (if grid0 = [] \<or> length grid0 < 4 then None
      else
        let grid = toUpperCase grid0;
            lon1 = jssub (jsmul (jssub (charCodeAt grid 0) (Fin 65)) (Fin 20)) (Fin 180);
            lat1 = jssub (jsmul (jssub (charCodeAt grid 1) (Fin 65)) (Fin 10)) (Fin 90);
            lon2 = jsmul (parseIntAt grid 2) (Fin 2);
            lat2 = parseIntAt grid 3;
            longitude = jsadd (jsadd lon1 lon2) (Fin 1);
            latitude = jsadd (jsadd lat1 lat2) (Fin (1 / 2))
        in
          if length grid \<ge> 6 then
            let lon3 = jsmul (jssub (charCodeAt grid 4) (Fin 65)) (Fin (2 / 24));
                lat3 = jsmul (jssub (charCodeAt grid 5) (Fin 65)) (Fin (1 / 24))
            in Some \<lparr> lat = jsadd (jsadd (jsadd lat1 lat2) lat3) (Fin ((1 / 2) / 24)),
                      lon = jsadd (jsadd (jsadd lon1 lon2) lon3) (Fin (1 / 24)) \<rparr>
          else Some \<lparr> lat = latitude, lon = longitude \<rparr>)"

subsection \<open>The Maidenhead scheme, as the specification words it\<close>

text \<open>
  The specification describes the locator independently of character codes: a first
  pair of letters \<open>A..R\<close> (either case) selects a field of 20 degrees of longitude by 10
  degrees of latitude, a pair of digits a square of 2 degrees by 1 degree inside it, and
  an optional third pair of letters \<open>A..X\<close> a sub-square of one twenty-fourth of the
  square (5 minutes of longitude). \<open>locator_square\<close> gives the south-west corner and the
  spans of the cell so described, and \<open>None\<close> for a string that is not a locator of 4
  or 6 characters. It is the reference that \<open>gridToLatLon\<close> is compared with.
\<close>

fun pos_in :: "'a \<Rightarrow> 'a list \<Rightarrow> nat option" where
  "pos_in x [] = None"
| "pos_in x (y # ys) = (if x = y then Some 0 else map_option Suc (pos_in x ys))"

definition letter_pos :: "string \<Rightarrow> string \<Rightarrow> char \<Rightarrow> nat option" where
  "letter_pos upper lower c =
     (case pos_in c upper of Some k \<Rightarrow> Some k | None \<Rightarrow> pos_in c lower)"

definition field_pos :: "char \<Rightarrow> nat option" where
  "field_pos = letter_pos ''ABCDEFGHIJKLMNOPQR'' ''abcdefghijklmnopqr''"

definition subsquare_pos :: "char \<Rightarrow> nat option" where
  "subsquare_pos = letter_pos ''ABCDEFGHIJKLMNOPQRSTUVWX'' ''abcdefghijklmnopqrstuvwx''"

definition digit_pos :: "char \<Rightarrow> nat option" where
  "digit_pos c = pos_in c ''0123456789''"

record square =
  sw_lat :: real
  sw_lon :: real
  lat_span :: real
  lon_span :: real

fun locator_square :: "string \<Rightarrow> square option" where
  "locator_square [a, b, c, d] =
     (case (field_pos a, field_pos b, digit_pos c, digit_pos d) of
        (Some i, Some j, Some m, Some n) \<Rightarrow>
          Some \<lparr> sw_lat = - 90 + 10 * real j + real n,
                 sw_lon = - 180 + 20 * real i + 2 * real m,
                 lat_span = 1, lon_span = 2 \<rparr>
      | _ \<Rightarrow> None)"
| "locator_square [a, b, c, d, e, f] =
     (case (locator_square [a, b, c, d], subsquare_pos e, subsquare_pos f) of
        (Some q, Some u, Some v) \<Rightarrow>
          Some \<lparr> sw_lat = sw_lat q + real v * (lat_span q / 24),
                 sw_lon = sw_lon q + real u * (lon_span q / 24),
                 lat_span = lat_span q / 24, lon_span = lon_span q / 24 \<rparr>
      | _ \<Rightarrow> None)"
| "locator_square _ = None"

definition center :: "square \<Rightarrow> latlon" where
  "center q = \<lparr> lat = Fin (sw_lat q + lat_span q / 2), lon = Fin (sw_lon q + lon_span q / 2) \<rparr>"

definition corner :: "square \<Rightarrow> latlon" where
  "corner q = \<lparr> lat = Fin (sw_lat q), lon = Fin (sw_lon q) \<rparr>"

text \<open>A coordinate lies strictly inside a cell.\<close>

definition inside :: "square \<Rightarrow> latlon \<Rightarrow> bool" where
  "inside q p =
     (jslt (Fin (sw_lat q)) (lat p) \<and> jslt (lat p) (Fin (sw_lat q + lat_span q)) \<and>
      jslt (Fin (sw_lon q)) (lon p) \<and> jslt (lon p) (Fin (sw_lon q + lon_span q)))"

text \<open>The absolute latitude and longitude differences of two coordinates.\<close>

definition coord_delta :: "latlon \<Rightarrow> latlon \<Rightarrow> jsnum \<times> jsnum" where
  "coord_delta p r = (jsabs (jssub (lat r) (lat p)), jsabs (jssub (lon r) (lon p)))"

section \<open>Signal classifier: \<^verbatim>\<open>getSNRColor\<close> and \<^verbatim>\<open>getMarkerSize\<close>\<close>

text \<open>
  A value read from a record of the feed, or passed as an argument, may be
  \<^verbatim>\<open>undefined\<close> (the field is missing) or \<^verbatim>\<open>null\<close>.
\<close>

datatype 'a jsval = Undefined | Null | Val 'a

definition getSNRColor :: "jsnum jsval \<Rightarrow> string" where
  "getSNRColor snr =
     (case snr of
        Val v \<Rightarrow>
          if jslt v (Fin 0) then ''#ff3333''
          else if jslt v (Fin 10) then ''#ff9933''
          else if jslt v (Fin 20) then ''#ffcc33''
          else if jslt v (Fin 30) then ''#99ff33''
          else ''#33ff33''
      | _ \<Rightarrow> ''#888888'')"

definition getMarkerSize :: "jsnum jsval \<Rightarrow> real" where
  "getMarkerSize snr =
     (case snr of
        Val v \<Rightarrow>
          if jslt v (Fin 0) then 6
          else if jslt v (Fin 10) then 8
          else if jslt v (Fin 20) then 10
          else if jslt v (Fin 30) then 12
          else 14
      | _ \<Rightarrow> 6)"

text \<open>
  The five tiers of the specification, numbered in ascending order of SNR:
  below 0, 0 to 10, 10 to 20, 20 to 30 (each excluding its upper bound), and 30 or more.
\<close>

definition snr_tier :: "real \<Rightarrow> nat" where
  "snr_tier x =
     (if x < 0 then 1 else if x < 10 then 2 else if x < 20 then 3 else if x < 30 then 4 else 5)"

section \<open>Band classifier: \<^verbatim>\<open>freqToBand\<close>\<close>

definition freqToBand :: "jsnum \<Rightarrow> string" where
  "freqToBand freq0 =
     (let freq = jsdiv freq0 (Fin 1000) in
      if jsge freq (Fin (18 / 10)) \<and> jslt freq (Fin 2) then ''160m''
      else if jsge freq (Fin (35 / 10)) \<and> jslt freq (Fin 4) then ''80m''
      else if jsge freq (Fin (53 / 10)) \<and> jslt freq (Fin (54 / 10)) then ''60m''
      else if jsge freq (Fin 7) \<and> jslt freq (Fin (73 / 10)) then ''40m''
      else if jsge freq (Fin (101 / 10)) \<and> jslt freq (Fin (1015 / 100)) then ''30m''
      else if jsge freq (Fin 14) \<and> jslt freq (Fin (1435 / 100)) then ''20m''
      else if jsge freq (Fin (18068 / 1000)) \<and> jslt freq (Fin (18168 / 1000)) then ''17m''
      else if jsge freq (Fin 21) \<and> jslt freq (Fin (2145 / 100)) then ''15m''
      else if jsge freq (Fin (2489 / 100)) \<and> jslt freq (Fin (2499 / 100)) then ''12m''
      else if jsge freq (Fin 28) \<and> jslt freq (Fin (297 / 10)) then ''10m''
      else if jsge freq (Fin 50) \<and> jslt freq (Fin 54) then ''6m''
      else ''Other'')"

text \<open>
  The table the specification speaks of: one range in MHz per band, lower bound
  included and upper bound excluded, in the order of the bands. \<open>table_band\<close> looks a
  frequency in MHz up in it.
\<close>

definition band_table :: "(real \<times> real \<times> string) list" where
  "band_table =
     [(18 / 10, 2, ''160m''), (35 / 10, 4, ''80m''), (53 / 10, 54 / 10, ''60m''),
      (7, 73 / 10, ''40m''), (101 / 10, 1015 / 100, ''30m''), (14, 1435 / 100, ''20m''),
      (18068 / 1000, 18168 / 1000, ''17m''), (21, 2145 / 100, ''15m''),
      (2489 / 100, 2499 / 100, ''12m''), (28, 297 / 10, ''10m''), (50, 54, ''6m'')]"

definition in_range :: "real \<Rightarrow> real \<times> real \<times> string \<Rightarrow> bool" where
  "in_range mhz r = (fst r \<le> mhz \<and> mhz < fst (snd r))"

definition table_band :: "real \<Rightarrow> string" where
  "table_band mhz =
     (case filter (in_range mhz) band_table of
        [] \<Rightarrow> ''Other''
      | r # _ \<Rightarrow> snd (snd r))"

text \<open>Each range is non-empty and ends no later than the next one starts.\<close>

fun ranges_disjoint :: "(real \<times> real \<times> string) list \<Rightarrow> bool" where
  "ranges_disjoint [] = True"
| "ranges_disjoint [r] = (fst r < fst (snd r))"
| "ranges_disjoint (r # s # rs) =
     (fst r < fst (snd r) \<and> fst (snd r) \<le> fst s \<and> ranges_disjoint (s # rs))"

section \<open>Great-circle path: \<^verbatim>\<open>getGreatCirclePath\<close>\<close>

text \<open>
  The functions of \<^verbatim>\<open>Math\<close> on the modelled numbers. On finite arguments they are
  the real functions; \<^verbatim>\<open>Math.acos\<close> gives \<open>NaN\<close> outside \<open>[-1, 1]\<close> and
  \<^verbatim>\<open>Math.sqrt\<close> on a negative number.
\<close>

fun jssin :: "jsnum \<Rightarrow> jsnum" where
  "jssin (Fin a) = Fin (sin a)"
| "jssin _ = NaN"

fun jscos :: "jsnum \<Rightarrow> jsnum" where
  "jscos (Fin a) = Fin (cos a)"
| "jscos _ = NaN"

fun jsacos :: "jsnum \<Rightarrow> jsnum" where
  "jsacos (Fin a) = (if - 1 \<le> a \<and> a \<le> 1 then Fin (arccos a) else NaN)"
| "jsacos _ = NaN"

fun jssqrt :: "jsnum \<Rightarrow> jsnum" where
  "jssqrt (Fin a) = (if a < 0 then NaN else Fin (sqrt a))"
| "jssqrt PInf = PInf"
| "jssqrt _ = NaN"

definition atan2 :: "real \<Rightarrow> real \<Rightarrow> real" where
  "atan2 y x =
     (if 0 < x then arctan (y / x)
      else if x < 0 then (if 0 \<le> y then arctan (y / x) + pi else arctan (y / x) - pi)
      else if 0 < y then pi / 2
      else if y < 0 then - (pi / 2)
      else 0)"

fun jsatan2 :: "jsnum \<Rightarrow> jsnum \<Rightarrow> jsnum" where
  "jsatan2 (Fin y) (Fin x) = Fin (atan2 y x)"
| "jsatan2 NaN _ = NaN"
| "jsatan2 _ NaN = NaN"
| "jsatan2 (Fin y) PInf = Fin 0"
| "jsatan2 (Fin y) NInf = Fin (if y < 0 then - pi else pi)"
| "jsatan2 PInf (Fin x) = Fin (pi / 2)"
| "jsatan2 NInf (Fin x) = Fin (- (pi / 2))"
| "jsatan2 PInf PInf = Fin (pi / 4)"
| "jsatan2 PInf NInf = Fin (3 * pi / 4)"
| "jsatan2 NInf PInf = Fin (- (pi / 4))"
| "jsatan2 NInf NInf = Fin (- (3 * pi / 4))"

text \<open>\<^verbatim>\<open>v * Math.PI / 180\<close> and \<^verbatim>\<open>r * 180 / Math.PI\<close>.\<close>

definition toRadians :: "jsnum \<Rightarrow> jsnum" where
  "toRadians v = jsdiv (jsmul v (Fin pi)) (Fin 180)"

definition toDegrees :: "jsnum \<Rightarrow> jsnum" where
  "toDegrees r = jsdiv (jsmul r (Fin 180)) (Fin pi)"

text \<open>
  One iteration of the loop of lines 100-115: the point pushed onto \<^verbatim>\<open>path\<close>, and
  beside it the two values of \<^verbatim>\<open>Math.sin(d)\<close> that the iteration divides by, for
  \<^verbatim>\<open>A\<close> and for \<^verbatim>\<open>B\<close>.
\<close>

definition pathPoint ::
  "jsnum \<Rightarrow> jsnum \<Rightarrow> jsnum \<Rightarrow> jsnum \<Rightarrow> jsnum \<Rightarrow> nat \<Rightarrow> nat \<Rightarrow> (jsnum \<times> jsnum) \<times> jsnum list" where
  "pathPoint lat1Rad lon1Rad lat2Rad lon2Rad d numPoints i =
     (let f = jsdiv (Fin (real i)) (Fin (real numPoints));
          A = jsdiv (jssin (jsmul (jssub (Fin 1) f) d)) (jssin d);
          B = jsdiv (jssin (jsmul f d)) (jssin d);
          x = jsadd (jsmul (jsmul A (jscos lat1Rad)) (jscos lon1Rad))
                    (jsmul (jsmul B (jscos lat2Rad)) (jscos lon2Rad));
          y = jsadd (jsmul (jsmul A (jscos lat1Rad)) (jssin lon1Rad))
                    (jsmul (jsmul B (jscos lat2Rad)) (jssin lon2Rad));
          z = jsadd (jsmul A (jssin lat1Rad)) (jsmul B (jssin lat2Rad));
          latitude = toDegrees (jsatan2 z (jssqrt (jsadd (jsmul x x) (jsmul y y))));
          longitude = toDegrees (jsatan2 y x)
      in ((latitude, longitude), [jssin d, jssin d]))"

text \<open>
  A run of \<^verbatim>\<open>getGreatCirclePath\<close>, lines 74-118: the path it returns, and the list
  of the divisors \<^verbatim>\<open>Math.sin(d)\<close> of the divisions it evaluated, in order. The two
  guards return before the loop. \<open>numPoints\<close> is the number of segments (30 by default).
  The differences \<^verbatim>\<open>lat2 - lat1\<close> and \<^verbatim>\<open>lon2 - lon1\<close> of lines 79-80 are the
  rounded ones that the source compares with 0.5, since they decide whether the loop
  runs; the trigonometry of the loop is exact.
\<close>

definition greatCircleRun ::
  "jsnum \<Rightarrow> jsnum \<Rightarrow> jsnum \<Rightarrow> jsnum \<Rightarrow> nat \<Rightarrow> (jsnum \<times> jsnum) list \<times> jsnum list" where
  "greatCircleRun lat1 lon1 lat2 lon2 numPoints =
     (if \<not> isFinite lat1 \<or> \<not> isFinite lon1 \<or> \<not> isFinite lat2 \<or> \<not> isFinite lon2
      then ([(lat1, lon1), (lat2, lon2)], [])
      else
        let deltaLat = jsabs (jssub64 lat2 lat1);
            deltaLon = jsabs (jssub64 lon2 lon1)
        in
          if jslt deltaLat (Fin (1 / 2)) \<and> jslt deltaLon (Fin (1 / 2))
          then ([(lat1, lon1), (lat2, lon2)], [])
          else
            let lat1Rad = toRadians lat1;
                lon1Rad = toRadians lon1;
                lat2Rad = toRadians lat2;
                lon2Rad = toRadians lon2;
                d = jsacos (jsadd (jsmul (jssin lat1Rad) (jssin lat2Rad))
                                  (jsmul (jsmul (jscos lat1Rad) (jscos lat2Rad))
                                         (jscos (jssub lon2Rad lon1Rad))));
                steps = map (pathPoint lat1Rad lon1Rad lat2Rad lon2Rad d numPoints)
                            [0 ..< Suc numPoints]
            in (map fst steps, concat (map snd steps)))"

definition getGreatCirclePath ::
  "jsnum \<Rightarrow> jsnum \<Rightarrow> jsnum \<Rightarrow> jsnum \<Rightarrow> nat \<Rightarrow> (jsnum \<times> jsnum) list" where
  "getGreatCirclePath lat1 lon1 lat2 lon2 numPoints =
     fst (greatCircleRun lat1 lon1 lat2 lon2 numPoints)"

definition sinDivisors :: "jsnum \<Rightarrow> jsnum \<Rightarrow> jsnum \<Rightarrow> jsnum \<Rightarrow> nat \<Rightarrow> jsnum list" where
  "sinDivisors lat1 lon1 lat2 lon2 numPoints =
     snd (greatCircleRun lat1 lon1 lat2 lon2 numPoints)"

section \<open>The feed's records and the statistics\<close>

text \<open>
  A record of the feed, with both spellings of each attribute. A timestamp is a number
  (milliseconds since the epoch) or a date string; a date string carries the number that
  \<^verbatim>\<open>Date.parse\<close> gives it (\<open>NaN\<close> when it does not parse), since the parser belongs to
  the JavaScript engine.
\<close>

datatype jstime = TNum jsnum | TStr string jsnum

record spot =
  timestamp :: "jstime jsval"
  time :: "jstime jsval"
  snr :: "jsnum jsval"
  db :: "jsnum jsval"
  callsign :: "string jsval"
  de :: "string jsval"
  grid :: "string jsval"
  de_grid :: "string jsval"
  frequency :: "jsnum jsval"
  freq :: "jsnum jsval"

text \<open>
  Truthiness, and \<^verbatim>\<open>a || b\<close>: the left operand when it is truthy, the right one
  otherwise. The numbers \<open>0\<close> and \<open>NaN\<close>, the empty string, \<^verbatim>\<open>null\<close> and
  \<^verbatim>\<open>undefined\<close> are falsy.
\<close>

fun truthy_num :: "jsnum \<Rightarrow> bool" where
  "truthy_num (Fin a) = (a \<noteq> 0)"
| "truthy_num NaN = False"
| "truthy_num _ = True"

definition truthy_str :: "string \<Rightarrow> bool" where
  "truthy_str s = (s \<noteq> [])"

fun truthy_time :: "jstime \<Rightarrow> bool" where
  "truthy_time (TNum n) = truthy_num n"
| "truthy_time (TStr s _) = truthy_str s"

definition js_or :: "('a \<Rightarrow> bool) \<Rightarrow> 'a jsval \<Rightarrow> 'a jsval \<Rightarrow> 'a jsval" where
  "js_or truthy a b = (case a of Val v \<Rightarrow> if truthy v then a else b | _ \<Rightarrow> b)"

text \<open>\<^verbatim>\<open>v || 0\<close> on a number that may be absent.\<close>

definition or_zero :: "jsnum jsval \<Rightarrow> jsnum" where
  "or_zero a = (case a of Val v \<Rightarrow> if truthy_num v then v else Fin 0 | _ \<Rightarrow> Fin 0)"

text \<open>The conversion to a number that \<^verbatim>\<open>+\<close> applies to its operand.\<close>

fun toNumber :: "jsnum jsval \<Rightarrow> jsnum" where
  "toNumber (Val v) = v"
| "toNumber Null = Fin 0"
| "toNumber Undefined = NaN"

text \<open>
  \<^verbatim>\<open>new Date(v).getTime()\<close>: the time value is clipped to an integer of at most
  8.64e15 in absolute value, and is \<open>NaN\<close> otherwise; \<^verbatim>\<open>null\<close> converts to 0.
\<close>

fun timeClip :: "jsnum \<Rightarrow> jsnum" where
  "timeClip (Fin a) =
     (if 8640000000000000 < \<bar>a\<bar> then NaN
      else Fin (of_int (if 0 \<le> a then \<lfloor>a\<rfloor> else \<lceil>a\<rceil>)))"
| "timeClip _ = NaN"

fun dateGetTime :: "jstime jsval \<Rightarrow> jsnum" where
  "dateGetTime Undefined = NaN"
| "dateGetTime Null = Fin 0"
| "dateGetTime (Val (TNum n)) = timeClip n"
| "dateGetTime (Val (TStr s v)) = timeClip v"

text \<open>
  \<^verbatim>\<open>x.toFixed(1)\<close> is a string; it is represented by the number it denotes. The
  digits are those of the nearest multiple of one tenth, a tie going away from zero;
  from 1e21 on, and for a value that is not finite, the string denotes the value itself.
  The argument here is the exact quotient; the source rounds the double nearest to it,
  which can give the neighbouring tenth when the quotient is within a rounding error of
  a tie.
\<close>

definition round_half_away :: "real \<Rightarrow> int" where
  "round_half_away x = (if 0 \<le> x then \<lfloor>x + 1 / 2\<rfloor> else - \<lfloor>- x + 1 / 2\<rfloor>)"

fun toFixed1 :: "jsnum \<Rightarrow> jsnum" where
  "toFixed1 (Fin a) =
     (if 10 ^ 21 \<le> \<bar>a\<bar> then Fin a else Fin (of_int (round_half_away (a * 10)) / 10))"
| "toFixed1 v = v"

record stats =
  total_spots :: nat
  skimmers :: nat
  avgSNR :: jsnum

text \<open>
  The statistics of lines 185-198, computed from \<^verbatim>\<open>recentSpots\<close>. The size of a
  \<^verbatim>\<open>Set\<close> built from an array is the number of its distinct elements.
\<close>

definition validSNRs :: "spot list \<Rightarrow> jsnum jsval list" where
  "validSNRs recentSpots =
     filter (\<lambda>v. v \<noteq> Null \<and> v \<noteq> Undefined)
       (map (\<lambda>s. js_or truthy_num (snr s) (db s)) recentSpots)"

definition uniqueSkimmers :: "spot list \<Rightarrow> string jsval list" where
  "uniqueSkimmers recentSpots =
     remdups (map (\<lambda>s. js_or truthy_str (callsign s) (de s)) recentSpots)"

definition computeStats :: "spot list \<Rightarrow> stats" where
  "computeStats recentSpots =
     \<lparr> total_spots = length recentSpots,
       skimmers = length (uniqueSkimmers recentSpots),
       avgSNR =
         (if length (validSNRs recentSpots) > 0
          then toFixed1 (jsdiv (foldl (\<lambda>a b. jsadd a (toNumber b)) (Fin 0) (validSNRs recentSpots))
                               (Fin (real (length (validSNRs recentSpots)))))
          else Fin 0) \<rparr>"

text \<open>
  What the specification asks of the average: the arithmetic mean of the SNR values that
  are present, rounded to one decimal place, and 0 when there is none. The SNR of a
  record is the value of its field \<^verbatim>\<open>snr\<close>, or of \<^verbatim>\<open>db\<close> when \<^verbatim>\<open>snr\<close> is
  missing; a value is present when it is a number, 0 included.
\<close>

definition present_snr :: "spot \<Rightarrow> real list" where
  "present_snr s =
     (case snr s of
        Val (Fin x) \<Rightarrow> [x]
      | _ \<Rightarrow> (case db s of Val (Fin y) \<Rightarrow> [y] | _ \<Rightarrow> []))"

definition spec_average :: "spot list \<Rightarrow> real" where
  "spec_average retained =
     (let xs = concat (map present_snr retained)
      in if xs = [] then 0
         else of_int (round_half_away (sum_list xs / real (length xs) * 10)) / 10)"

text \<open>
  The records on which the fallback \<^verbatim>\<open>s.snr || s.db\<close> selects the value that is
  present: the field \<^verbatim>\<open>snr\<close> is missing, \<^verbatim>\<open>null\<close> or a finite number other than
  0, and the field \<^verbatim>\<open>db\<close> is missing, \<^verbatim>\<open>null\<close> or a finite number.
\<close>

definition snr_fields_regular :: "spot \<Rightarrow> bool" where
  "snr_fields_regular s =
     ((case snr s of Val (Fin x) \<Rightarrow> x \<noteq> 0 | Val _ \<Rightarrow> False | _ \<Rightarrow> True) \<and>
      (case db s of Val (Fin y) \<Rightarrow> True | Val _ \<Rightarrow> False | _ \<Rightarrow> True))"

section \<open>The overlay hook: \<^verbatim>\<open>useLayer\<close>\<close>

subsection \<open>Drawn primitives and the map\<close>

text \<open>
  The popup of a marker, by the values that its template interpolates (the formatting of
  the frequency and of the time of day is the engine's).
\<close>

record popup =
  popup_skimmerCall :: string
  popup_callsign :: "string jsval"
  popup_snr :: jsnum
  popup_band :: string
  popup_freq :: jsnum
  popup_grid :: string
  popup_time :: jsnum

text \<open>
  \<^verbatim>\<open>L.polyline(latlngs, {color, weight, opacity, dashArray})\<close> and
  \<^verbatim>\<open>L.circleMarker(latlng, {radius, fillColor, color, weight, opacity, fillOpacity})\<close>
  with its popup. Leaflet's constructors are taken as total.
\<close>

datatype layer =
    Polyline "(jsnum \<times> jsnum) list" string real real string
  | CircleMarker "jsnum \<times> jsnum" real string string real real real popup

text \<open>The colour that conveys the SNR: the stroke of a path, the fill of a marker.\<close>

fun snr_color :: "layer \<Rightarrow> string" where
  "snr_color (Polyline _ c _ _ _) = c"
| "snr_color (CircleMarker _ _ fc _ _ _ _ _) = fc"

fun marker_radius :: "layer \<Rightarrow> real option" where
  "marker_radius (Polyline _ _ _ _ _) = None"
| "marker_radius (CircleMarker _ r _ _ _ _ _ _) = Some r"

text \<open>The control panel, by the values that its template shows.\<close>

record control =
  control_callsign :: "string jsval"
  control_stats :: stats
  control_band :: string
  control_timeWindow :: int
  control_minSNR :: int
  control_showPaths :: bool

text \<open>The Leaflet map: the layers and the controls that are on it.\<close>

record leaflet =
  map_layers :: "layer list"
  map_controls :: "control list"

subsection \<open>The state of the hook\<close>

datatype exn = ApiError nat | FetchFailed | SyntaxError | TypeError

datatype log_entry =
    NoCallsign
  | Fetching string
  | Received nat
  | Rendering nat
  | FetchError exn

text \<open>
  A retrieval in flight: the values of \<^verbatim>\<open>callsign\<close> and \<^verbatim>\<open>timeWindow\<close> that the
  closure \<^verbatim>\<open>fetchRBNSpots\<close> captured when it was called.
\<close>

record request =
  req_callsign :: string
  req_timeWindow :: int

text \<open>The names that the dependency arrays of the effects mention.\<close>

datatype dep =
    DEnabled | DOpacity | DMap | DCallsign
  | DSpots | DSelectedBand | DTimeWindow | DMinSNR | DShowPaths | DStats

text \<open>
  The props (\<open>enabled\<close>, \<open>opacity\<close>, \<open>lmap\<close> for \<^verbatim>\<open>map\<close>, \<open>callsign_prop\<close>), the six
  state variables, the three refs, and what the hook acts on: the console, the timers
  that are running, the retrievals in flight and \<^verbatim>\<open>window.deLocation\<close>. \<open>dirty\<close> holds
  the names whose value changed since the effects last ran. The map is a mounted Leaflet
  map throughout. \<open>controlCleanup\<close> tells whether the last run of the control effect
  returned its cleanup function. \<open>minSNR\<close> and \<open>timeWindow\<close> are integers: they start
  at -10 and 30 and are only set from \<^verbatim>\<open>parseInt\<close> of a range slider's value.
\<close>

record hook =
  enabled :: bool
  opacity :: real
  lmap :: leaflet
  callsign_prop :: "string jsval"
  spots :: "spot list"
  selectedBand :: string
  timeWindow :: int
  minSNR :: int
  showPaths :: bool
  stats :: stats
  layersRef :: "layer list"
  controlRef :: "control option"
  updateIntervalRef :: "nat option"
  controlCleanup :: bool
  console :: "log_entry list"
  timers :: "nat list"
  next_timer :: nat
  pending :: "request list"
  deLocation :: "latlon option"
  dirty :: "dep list"

subsection \<open>\<^verbatim>\<open>fetchRBNSpots\<close>\<close>

text \<open>
  The response of the network: the retrieval fails, or it gives a status and a body; the
  body is not JSON, or it is a JSON value. An element of a JSON array is \<^verbatim>\<open>null\<close>
  (\<open>None\<close>) or a record; a value that is neither \<^verbatim>\<open>null\<close> nor an array comes with the
  number that \<^verbatim>\<open>data.length || 0\<close> prints for it.
\<close>

datatype json = JNull | JArray "spot option list" | JOther nat

datatype body = BadJson | Json json

datatype response = NetworkFailure | Response nat body

definition ok :: "nat \<Rightarrow> bool" where
  "ok status = (200 \<le> status \<and> status \<le> 299)"

definition callsign_valid :: "string jsval \<Rightarrow> bool" where
  "callsign_valid c = (case c of Val s \<Rightarrow> s \<noteq> [] \<and> s \<noteq> ''N0CALL'' | _ \<Rightarrow> False)"

definition console_log :: "log_entry \<Rightarrow> hook \<Rightarrow> hook" where
  "console_log e st = st\<lparr> console := console st @ [e] \<rparr>"

text \<open>
  A state setter of React stores the value and schedules a re-render. An array or an
  object is a new value each time; a primitive that is unchanged schedules nothing.
\<close>

definition setSpots :: "spot list \<Rightarrow> hook \<Rightarrow> hook" where
  "setSpots v st = st\<lparr> spots := v, dirty := dirty st @ [DSpots] \<rparr>"

definition setStats :: "stats \<Rightarrow> hook \<Rightarrow> hook" where
  "setStats v st = st\<lparr> stats := v, dirty := dirty st @ [DStats] \<rparr>"

text \<open>
  Lines 151-164: the part of \<^verbatim>\<open>fetchRBNSpots\<close> that runs when it is called, up to
  the \<^verbatim>\<open>await\<close> of the retrieval.
\<close>

definition fetchRBNSpots_start :: "hook \<Rightarrow> hook" where
  "fetchRBNSpots_start st =
     (case callsign_prop st of
        Val c \<Rightarrow>
          if callsign_valid (Val c)
          then (console_log (Fetching c) st)
                 \<lparr> pending := pending st @ [\<lparr> req_callsign = c, req_timeWindow = timeWindow st \<rparr>] \<rparr>
          else console_log NoCallsign st
      | _ \<Rightarrow> console_log NoCallsign st)"

text \<open>
  Lines 166-199: the rest of the \<^verbatim>\<open>try\<close> block, once the retrieval has settled at
  time \<open>now\<close>. \<open>Inl\<close> is an exception thrown in the block, with the state at the throw.
  A \<^verbatim>\<open>null\<close> body throws at \<^verbatim>\<open>data.length\<close>, and a \<^verbatim>\<open>null\<close> element of the array
  throws in the callback of the filter, before anything is set.
\<close>

definition recentSpots :: "int \<Rightarrow> int \<Rightarrow> spot list \<Rightarrow> spot list" where
  "recentSpots now tw data =
     (let cutoff = Fin (real_of_int (now - tw * 60 * 1000))
      in filter (\<lambda>spot. jsgt (dateGetTime (js_or truthy_time (timestamp spot) (time spot))) cutoff)
           data)"

definition fetch_try :: "request \<Rightarrow> response \<Rightarrow> int \<Rightarrow> hook \<Rightarrow> (exn \<times> hook) + hook" where
  "fetch_try req resp now st =
     (case resp of
        NetworkFailure \<Rightarrow> Inl (FetchFailed, st)
      | Response status body \<Rightarrow>
          if \<not> ok status then Inl (ApiError status, st)
          else
            (case body of
               BadJson \<Rightarrow> Inl (SyntaxError, st)
             | Json JNull \<Rightarrow> Inl (TypeError, st)
             | Json (JOther n) \<Rightarrow> Inr (console_log (Received n) st)
             | Json (JArray data) \<Rightarrow>
                 (case those data of
                    None \<Rightarrow> Inl (TypeError, console_log (Received (length data)) st)
                  | Some objs \<Rightarrow>
                      let recent = recentSpots now (req_timeWindow req) objs
                      in Inr (setStats (computeStats recent)
                               (setSpots recent (console_log (Received (length data)) st))))))"

text \<open>
  The outcome of the promise that \<^verbatim>\<open>fetchRBNSpots\<close> returns. The \<^verbatim>\<open>catch\<close> of
  lines 200-202 reports the exception on the console.
\<close>

datatype outcome = Fulfilled | Rejected exn

definition fetchRBNSpots_resume ::
  "request \<Rightarrow> response \<Rightarrow> int \<Rightarrow> hook \<Rightarrow> outcome \<times> hook" where
  "fetchRBNSpots_resume req resp now st =
     (case fetch_try req resp now st of
        Inl (error, st') \<Rightarrow> (Fulfilled, console_log (FetchError error) st')
      | Inr st' \<Rightarrow> (Fulfilled, st'))"

subsection \<open>The effects\<close>

definition removeLayer :: "layer \<Rightarrow> leaflet \<Rightarrow> leaflet" where
  "removeLayer l m = m\<lparr> map_layers := remove1 l (map_layers m) \<rparr>"

definition addLayer :: "layer \<Rightarrow> leaflet \<Rightarrow> leaflet" where
  "addLayer l m = m\<lparr> map_layers := map_layers m @ [l] \<rparr>"

definition removeControl :: "control \<Rightarrow> leaflet \<Rightarrow> leaflet" where
  "removeControl c m = m\<lparr> map_controls := remove1 c (map_controls m) \<rparr>"

definition addControl :: "control \<Rightarrow> leaflet \<Rightarrow> leaflet" where
  "addControl c m = m\<lparr> map_controls := map_controls m @ [c] \<rparr>"

text \<open>
  Lines 224-229 and 427-432: every tracked layer is removed from the map, an exception
  of the removal being swallowed, and the tracking array is emptied.
\<close>

definition clearLayers :: "hook \<Rightarrow> hook" where
  "clearLayers st = st\<lparr> lmap := fold removeLayer (layersRef st) (lmap st), layersRef := [] \<rparr>"

text \<open>
  The first effect, lines 206-217, with dependencies \<^verbatim>\<open>[enabled, callsign, timeWindow]\<close>:
  its cleanup and its body. \<^verbatim>\<open>setInterval\<close> gives a fresh positive identifier.
\<close>

definition fetchCleanup :: "hook \<Rightarrow> hook" where
  "fetchCleanup st =
     (case updateIntervalRef st of
        Some t \<Rightarrow> st\<lparr> timers := removeAll t (timers st) \<rparr>
      | None \<Rightarrow> st)"

definition fetchEffect :: "hook \<Rightarrow> hook" where
  "fetchEffect st =
     (if enabled st \<and> callsign_valid (callsign_prop st)
      then let st1 = fetchRBNSpots_start st
           in st1\<lparr> updateIntervalRef := Some (next_timer st1),
                    timers := timers st1 @ [next_timer st1],
                    next_timer := Suc (next_timer st1) \<rparr>
      else st)"

text \<open>The callback of the filter of lines 237-245.\<close>

definition spot_band :: "spot \<Rightarrow> string" where
  "spot_band spot = freqToBand (or_zero (js_or truthy_num (frequency spot) (freq spot)))"

definition spot_snr :: "spot \<Rightarrow> jsnum" where
  "spot_snr spot = or_zero (js_or truthy_num (snr spot) (db spot))"

definition spot_filter :: "string \<Rightarrow> int \<Rightarrow> spot \<Rightarrow> bool" where
  "spot_filter band minimum spot =
     (if band \<noteq> ''All'' \<and> spot_band spot \<noteq> band then False
      else if jslt (spot_snr spot) (Fin (real_of_int minimum)) then False
      else True)"

text \<open>
  The callback of lines 250-308, for one record: the layers it adds to the map and
  pushes onto the tracking array, in order. \<open>home\<close> is \<^verbatim>\<open>deLocation\<close>.
\<close>

definition or_unknown :: "string jsval \<Rightarrow> string" where
  "or_unknown a = (case a of Val s \<Rightarrow> if truthy_str s then s else ''Unknown'' | _ \<Rightarrow> ''Unknown'')"

definition renderSpot :: "hook \<Rightarrow> latlon \<Rightarrow> spot \<Rightarrow> layer list" where
  "renderSpot st home spot =
     (case js_or truthy_str (grid spot) (de_grid spot) of
        Val skimmerGrid \<Rightarrow>
          if \<not> truthy_str skimmerGrid then []
          else
            (case gridToLatLon skimmerGrid of
               None \<Rightarrow> []
             | Some skimmerLoc \<Rightarrow>
                 let snr_v = spot_snr spot;
                     freq_v = or_zero (js_or truthy_num (frequency spot) (freq spot));
                     band = freqToBand freq_v;
                     skimmerCall = or_unknown (js_or truthy_str (callsign spot) (de spot));
                     timestamp_v = dateGetTime (js_or truthy_time (timestamp spot) (time spot));
                     pathLine =
                       Polyline
                         (getGreatCirclePath (lat home) (lon home) (lat skimmerLoc) (lon skimmerLoc) 30)
                         (getSNRColor (Val snr_v)) 2 (opacity st * (6 / 10)) ''5, 5'';
                     marker =
                       CircleMarker (lat skimmerLoc, lon skimmerLoc)
                         (getMarkerSize (Val snr_v)) (getSNRColor (Val snr_v)) ''#ffffff'' 2
                         (opacity st) (opacity st * (8 / 10))
                         \<lparr> popup_skimmerCall = skimmerCall, popup_callsign = callsign_prop st,
                           popup_snr = snr_v, popup_band = band,
                           popup_freq = jsdiv freq_v (Fin 1000), popup_grid = skimmerGrid,
                           popup_time = timestamp_v \<rparr>
                 in (if showPaths st then [pathLine] else []) @ [marker])
      | _ \<Rightarrow> [])"

text \<open>
  The second effect, lines 220-310, with dependencies \<^verbatim>\<open>[map, enabled, spots,
  selectedBand, minSNR, showPaths, opacity, callsign]\<close>. It has no cleanup.
\<close>

definition defaultLocation :: latlon where
  "defaultLocation = \<lparr> lat = Fin (436785 / 10000), lon = Fin (- 792935 / 10000) \<rparr>"

definition renderEffect :: "hook \<Rightarrow> hook" where
  "renderEffect st =
     (if \<not> enabled st then st
      else
        let st1 = clearLayers st
        in if spots st1 = [] then st1
           else
             let home = (case deLocation st1 of Some l \<Rightarrow> l | None \<Rightarrow> defaultLocation);
                 filteredSpots = filter (spot_filter (selectedBand st1) (minSNR st1)) (spots st1);
                 st2 = console_log (Rendering (length filteredSpots)) st1;
                 drawn = concat (map (renderSpot st2 home) filteredSpots)
             in st2\<lparr> lmap := fold addLayer drawn (lmap st2),
                      layersRef := layersRef st2 @ drawn \<rparr>)"

text \<open>
  The third effect, lines 313-422, with dependencies \<^verbatim>\<open>[map, enabled, stats,
  selectedBand, timeWindow, minSNR, showPaths, callsign]\<close>: its cleanup, which exists
  when the last run passed the guard, and its body.
\<close>

definition controlCleanupRun :: "hook \<Rightarrow> hook" where
  "controlCleanupRun st =
     (if controlCleanup st
      then (case controlRef st of
              Some c \<Rightarrow> st\<lparr> lmap := removeControl c (lmap st), controlRef := None \<rparr>
            | None \<Rightarrow> st)
      else st)"

definition controlEffect :: "hook \<Rightarrow> hook" where
  "controlEffect st =
     (if \<not> enabled st then st\<lparr> controlCleanup := False \<rparr>
      else
        let c = \<lparr> control_callsign = callsign_prop st, control_stats = stats st,
                  control_band = selectedBand st, control_timeWindow = timeWindow st,
                  control_minSNR = minSNR st, control_showPaths = showPaths st \<rparr>
        in st\<lparr> lmap := addControl c (lmap st), controlRef := Some c, controlCleanup := True \<rparr>)"

text \<open>The fourth effect, lines 425-439, with dependencies \<^verbatim>\<open>[enabled, map]\<close>.\<close>

definition disableEffect :: "hook \<Rightarrow> hook" where
  "disableEffect st =
     (if \<not> enabled st
      then let st1 = clearLayers st
           in (case controlRef st1 of
                 Some c \<Rightarrow> st1\<lparr> lmap := removeControl c (lmap st1), controlRef := None \<rparr>
               | None \<Rightarrow> st1)
      else st)"

subsection \<open>Re-rendering\<close>

text \<open>
  After a render React runs the effects whose dependencies changed: first the cleanups of
  these effects, in the order of the effects, then their bodies, in the same order.
\<close>

definition depends :: "dep list \<Rightarrow> dep list \<Rightarrow> bool" where
  "depends deps changed = list_ex (\<lambda>d. d \<in> set changed) deps"

definition rerender :: "hook \<Rightarrow> hook" where
  "rerender st =
     (let changed = dirty st;
          e1 = depends [DEnabled, DCallsign, DTimeWindow] changed;
          e2 = depends [DMap, DEnabled, DSpots, DSelectedBand, DMinSNR, DShowPaths, DOpacity,
                        DCallsign] changed;
          e3 = depends [DMap, DEnabled, DStats, DSelectedBand, DTimeWindow, DMinSNR, DShowPaths,
                        DCallsign] changed;
          e4 = depends [DEnabled, DMap] changed;
          s0 = st\<lparr> dirty := [] \<rparr>;
          s1 = (if e1 then fetchCleanup s0 else s0);
          s2 = (if e3 then controlCleanupRun s1 else s1);
          s3 = (if e1 then fetchEffect s2 else s2);
          s4 = (if e2 then renderEffect s3 else s3);
          s5 = (if e3 then controlEffect s4 else s4);
          s6 = (if e4 then disableEffect s5 else s5)
      in s6)"

subsection \<open>What happens to the hook\<close>

text \<open>
  The first render: the initial values of lines 138-147, and every effect runs.
\<close>

definition mount :: "bool \<Rightarrow> real \<Rightarrow> string jsval \<Rightarrow> latlon option \<Rightarrow> hook" where
  "mount en op cs home =
     rerender
       \<lparr> enabled = en, opacity = op, lmap = \<lparr> map_layers = [], map_controls = [] \<rparr>,
         callsign_prop = cs, spots = [], selectedBand = ''All'', timeWindow = 30,
         minSNR = - 10, showPaths = True,
         stats = \<lparr> total_spots = 0, skimmers = 0, avgSNR = Fin 0 \<rparr>,
         layersRef = [], controlRef = None, updateIntervalRef = None,
         controlCleanup = False, console = [], timers = [], next_timer = 1, pending = [],
         deLocation = home,
         dirty = [DEnabled, DOpacity, DMap, DCallsign, DSpots, DSelectedBand, DTimeWindow,
                  DMinSNR, DShowPaths, DStats] \<rparr>"

text \<open>
  The parent changes a prop: the overlay is switched on or off, the callsign or the
  opacity is changed.
\<close>

definition setEnabled :: "bool \<Rightarrow> hook \<Rightarrow> hook" where
  "setEnabled b st =
     (if enabled st = b then st
      else rerender (st\<lparr> enabled := b, dirty := dirty st @ [DEnabled] \<rparr>))"

definition setCallsign :: "string jsval \<Rightarrow> hook \<Rightarrow> hook" where
  "setCallsign v st =
     (if callsign_prop st = v then st
      else rerender (st\<lparr> callsign_prop := v, dirty := dirty st @ [DCallsign] \<rparr>))"

definition setOpacity :: "real \<Rightarrow> hook \<Rightarrow> hook" where
  "setOpacity v st =
     (if opacity st = v then st
      else rerender (st\<lparr> opacity := v, dirty := dirty st @ [DOpacity] \<rparr>))"

text \<open>The control's widgets call the setters of the four filter values.\<close>

definition setSelectedBand :: "string \<Rightarrow> hook \<Rightarrow> hook" where
  "setSelectedBand v st =
     (if selectedBand st = v then st
      else rerender (st\<lparr> selectedBand := v, dirty := dirty st @ [DSelectedBand] \<rparr>))"

definition setTimeWindow :: "int \<Rightarrow> hook \<Rightarrow> hook" where
  "setTimeWindow v st =
     (if timeWindow st = v then st
      else rerender (st\<lparr> timeWindow := v, dirty := dirty st @ [DTimeWindow] \<rparr>))"

definition setMinSNR :: "int \<Rightarrow> hook \<Rightarrow> hook" where
  "setMinSNR v st =
     (if minSNR st = v then st
      else rerender (st\<lparr> minSNR := v, dirty := dirty st @ [DMinSNR] \<rparr>))"

definition setShowPaths :: "bool \<Rightarrow> hook \<Rightarrow> hook" where
  "setShowPaths v st =
     (if showPaths st = v then st
      else rerender (st\<lparr> showPaths := v, dirty := dirty st @ [DShowPaths] \<rparr>))"

text \<open>The timer of the first effect fires, if it is still running.\<close>

definition intervalTick :: "nat \<Rightarrow> hook \<Rightarrow> hook" where
  "intervalTick t st = (if t \<in> set (timers st) then fetchRBNSpots_start st else st)"

text \<open>
  A retrieval in flight settles with a response at time \<open>now\<close>: the rest of
  \<^verbatim>\<open>fetchRBNSpots\<close> runs, and React re-renders if a setter was called.
\<close>

definition fetchSettled :: "request \<Rightarrow> response \<Rightarrow> int \<Rightarrow> hook \<Rightarrow> outcome \<times> hook" where
  "fetchSettled req resp now st =
     (case fetchRBNSpots_resume req resp now (st\<lparr> pending := remove1 req (pending st) \<rparr>) of
        (out, st') \<Rightarrow> (out, rerender st'))"

text \<open>The states that the hook can be in: after the first render, and after each event.\<close>

inductive reachable :: "hook \<Rightarrow> bool" where
  r_mount: "reachable (mount en op cs home)"
| r_enabled: "reachable st \<Longrightarrow> reachable (setEnabled b st)"
| r_callsign: "reachable st \<Longrightarrow> reachable (setCallsign c st)"
| r_opacity: "reachable st \<Longrightarrow> reachable (setOpacity o' st)"
| r_band: "reachable st \<Longrightarrow> reachable (setSelectedBand v st)"
| r_window: "reachable st \<Longrightarrow> reachable (setTimeWindow w st)"
| r_floor: "reachable st \<Longrightarrow> reachable (setMinSNR m st)"
| r_paths: "reachable st \<Longrightarrow> reachable (setShowPaths p st)"
| r_tick: "reachable st \<Longrightarrow> reachable (intervalTick t st)"
| r_settled: "reachable st \<Longrightarrow> req \<in> set (pending st) \<Longrightarrow>
              reachable (snd (fetchSettled req resp now st))"

text \<open>
  A retrieval fails when the network fails, the status is not 2xx, or the body is not
  JSON; the exception that the \<^verbatim>\<open>try\<close> block then throws.
\<close>

fun retrieval_failed :: "response \<Rightarrow> bool" where
  "retrieval_failed NetworkFailure = True"
| "retrieval_failed (Response status b) = (\<not> ok status \<or> b = BadJson)"

fun failure :: "response \<Rightarrow> exn" where
  "failure NetworkFailure = FetchFailed"
| "failure (Response status b) = (if \<not> ok status then ApiError status else SyntaxError)"

subsection \<open>Consistency of the drawing surface\<close>

text \<open>
  The map shows exactly the tracked layers; no re-render is outstanding; and while the
  overlay is disabled nothing is tracked.
\<close>

definition synced :: "hook \<Rightarrow> bool" where
  "synced st = (map_layers (lmap st) = layersRef st)"

definition consistent :: "hook \<Rightarrow> bool" where
  "consistent st = (synced st \<and> dirty st = [] \<and> (enabled st \<or> layersRef st = []))"

subsection \<open>An example session\<close>

text \<open>
  A record of the feed, heard by \<open>K1TTT\<close> in \<open>FN32\<close> on 7025 kHz at 15 dB, the
  retrieval that the hook issues for \<open>W1AW\<close> with the default window of 30 minutes, and
  a response that carries the record.
\<close>

definition example_spot :: spot where
  "example_spot =
     \<lparr> timestamp = Val (TNum (Fin 1699999990000)), time = Undefined,
       snr = Val (Fin 15), db = Undefined,
       callsign = Val ''K1TTT'', de = Undefined,
       grid = Val ''FN32'', de_grid = Undefined,
       frequency = Val (Fin 7025), freq = Undefined \<rparr>"

definition example_request :: request where
  "example_request = \<lparr> req_callsign = ''W1AW'', req_timeWindow = 30 \<rparr>"

definition example_response :: response where
  "example_response = Response 200 (Json (JArray [Some example_spot]))"

definition example_mounted :: hook where
  "example_mounted = mount True (7 / 10) (Val ''W1AW'') None"

section \<open>Properties of the grid locator\<close>

lemma field_code:
  "field_pos c = Some k \<Longrightarrow> (of_char (toUpperChar c) :: nat) = 65 + k"
  unfolding field_pos_def letter_pos_def toUpperChar_def
  by (auto split: option.splits if_splits)

lemma subsquare_code:
  "subsquare_pos c = Some k \<Longrightarrow> (of_char (toUpperChar c) :: nat) = 65 + k"
  unfolding subsquare_pos_def letter_pos_def toUpperChar_def
  by (auto split: option.splits if_splits)

lemma digit_code:
  "digit_pos c = Some k \<Longrightarrow> (of_char (toUpperChar c) :: nat) = 48 + k \<and> k \<le> 9"
  unfolding digit_pos_def toUpperChar_def
  by (auto split: option.splits if_splits)

lemmas grid_eval = gridToLatLon_def toUpperCase_def charCodeAt_def parseIntAt_def jssub_def

lemma center4:
  assumes "locator_square [a, b, c, d] = Some q"
  shows "gridToLatLon [a, b, c, d] = Some (center q)"
proof -
  from assms obtain i j m n where p: "field_pos a = Some i" "field_pos b = Some j"
      "digit_pos c = Some m" "digit_pos d = Some n"
    and q: "q = \<lparr> sw_lat = - 90 + 10 * real j + real n,
                 sw_lon = - 180 + 20 * real i + 2 * real m,
                 lat_span = 1, lon_span = 2 \<rparr>"
    by (auto split: option.splits)
  show ?thesis
    using field_code[OF p(1)] field_code[OF p(2)] digit_code[OF p(3)] digit_code[OF p(4)]
    by (simp add: grid_eval q center_def Let_def)
qed

lemma center6:
  assumes "locator_square [a, b, c, d, e, f] = Some q"
  shows "gridToLatLon [a, b, c, d, e, f] = Some (center q)"
proof -
  from assms obtain i j m n u v where p: "field_pos a = Some i" "field_pos b = Some j"
      "digit_pos c = Some m" "digit_pos d = Some n"
      "subsquare_pos e = Some u" "subsquare_pos f = Some v"
    and q: "q = \<lparr> sw_lat = - 90 + 10 * real j + real n + real v * (1 / 24),
                 sw_lon = - 180 + 20 * real i + 2 * real m + real u * (2 / 24),
                 lat_span = 1 / 24, lon_span = 2 / 24 \<rparr>"
    by (auto split: option.splits)
  show ?thesis
    using field_code[OF p(1)] field_code[OF p(2)] digit_code[OF p(3)] digit_code[OF p(4)]
      subsquare_code[OF p(5)] subsquare_code[OF p(6)]
    by (simp add: grid_eval q center_def Let_def)
qed

lemma center_ne_corner: "locator_square g = Some q \<Longrightarrow> center q \<noteq> corner q"
  by (induction g rule: locator_square.induct)
     (auto simp: center_def corner_def split: option.splits)

lemma locator_square_spans:
  "locator_square g = Some q \<Longrightarrow>
     (length g = 4 \<longrightarrow> lon_span q / 2 = 1 \<and> lat_span q / 2 = 1 / 2) \<and>
     (length g = 6 \<longrightarrow> lon_span q / 2 = 1 / 24 \<and> lat_span q / 2 = (1 / 2) / 24)"
  by (induction g rule: locator_square.induct) (auto split: option.splits)

text \<open>
  Claim C2, as the specification states it: a locator whose first two characters are not
  letters \<open>A..R\<close>, or whose third and fourth characters are not digits, resolves to
  \<open>None\<close>. The code does not validate the characters. \<open>ZZ99\<close> has two letters outside
  \<open>A..R\<close> and resolves to a numeric coordinate, latitude 169.5 and longitude 339.
\<close>

theorem gridToLatLon_malformed_counterexample:
  "locator_square ''ZZ99'' = None \<and>
   gridToLatLon ''ZZ99'' = Some \<lparr> lat = Fin (339 / 2), lon = Fin 339 \<rparr>"
  by (simp add: grid_eval field_pos_def letter_pos_def toUpperChar_def)

text \<open>
  Claim C2, amended: the resolver returns \<open>None\<close> exactly when the input is empty or
  shorter than 4 characters; every longer input resolves to a coordinate record, whatever
  its characters are.
\<close>

theorem gridToLatLon_None_iff:
  "(gridToLatLon g = None) = (length g < 4)"
  by (auto simp add: gridToLatLon_def Let_def)

text \<open>
  Claim C5, as the specification states it: \<open>FN20\<close> resolves to a coordinate near
  latitude 42.5, longitude -71. The code resolves \<open>FN20\<close> to latitude 40.5, longitude
  -75, which is 2 degrees of latitude and 4 degrees of longitude away; the stated
  coordinate is outside the square of \<open>FN20\<close> and is what \<open>FN42\<close> resolves to.
\<close>

theorem gridToLatLon_FN20_counterexample:
  "gridToLatLon ''FN20'' = Some \<lparr> lat = Fin (81 / 2), lon = Fin (- 75) \<rparr> \<and>
   map_option (coord_delta \<lparr> lat = Fin (85 / 2), lon = Fin (- 71) \<rparr>) (gridToLatLon ''FN20'')
     = Some (Fin 2, Fin 4) \<and>
   map_option (\<lambda>q. inside q \<lparr> lat = Fin (85 / 2), lon = Fin (- 71) \<rparr>) (locator_square ''FN20'')
     = Some False \<and>
   gridToLatLon ''FN42'' = Some \<lparr> lat = Fin (85 / 2), lon = Fin (- 71) \<rparr>"
  by (simp add: grid_eval toUpperChar_def coord_delta_def inside_def
      field_pos_def digit_pos_def letter_pos_def)

text \<open>
  Claim C5, amended: \<open>FN20\<close> resolves to latitude 40.5, longitude -75; the six-character
  lowercase \<open>fn20xp\<close> resolves to latitude 40 + 31/48, longitude -74 - 1/24, which lies
  strictly inside the square of \<open>FN20\<close> (40 to 41 north, 76 to 74 west) and belongs to a
  cell of one twenty-fourth of its spans.
\<close>

theorem gridToLatLon_FN20_examples:
  "gridToLatLon ''FN20'' = Some \<lparr> lat = Fin (81 / 2), lon = Fin (- 75) \<rparr> \<and>
   gridToLatLon ''fn20xp'' = Some \<lparr> lat = Fin (1951 / 48), lon = Fin (- 1777 / 24) \<rparr> \<and>
   locator_square ''FN20'' = Some \<lparr> sw_lat = 40, sw_lon = - 76, lat_span = 1, lon_span = 2 \<rparr> \<and>
   inside \<lparr> sw_lat = 40, sw_lon = - 76, lat_span = 1, lon_span = 2 \<rparr>
          \<lparr> lat = Fin (1951 / 48), lon = Fin (- 1777 / 24) \<rparr> \<and>
   map_option (\<lambda>q. (lat_span q, lon_span q)) (locator_square ''fn20xp'') = Some (1 / 24, 1 / 12)"
  by (simp add: grid_eval toUpperChar_def inside_def
      field_pos_def digit_pos_def subsquare_pos_def letter_pos_def)

text \<open>
  Claim C6: for every valid locator (4 or 6 characters in Maidenhead form) the resolver
  returns the centre of the resolved cell: its south-west corner plus half its latitude
  span and half its longitude span, which are 0.5 and 1 degree for 4 characters and
  0.5/24 and 1/24 degree for 6 characters. The result is never the corner itself.
\<close>

theorem gridToLatLon_center:
  assumes "locator_square g = Some q"
  shows "gridToLatLon g = Some (center q) \<and> gridToLatLon g \<noteq> Some (corner q)
       \<and> (length g = 4 \<longrightarrow> lon_span q / 2 = 1 \<and> lat_span q / 2 = 1 / 2)
       \<and> (length g = 6 \<longrightarrow> lon_span q / 2 = 1 / 24 \<and> lat_span q / 2 = (1 / 2) / 24)"
proof -
  have c: "gridToLatLon g = Some (center q)"
    using assms
    by (induction g rule: locator_square.induct)
       (simp_all only: center4 center6 locator_square.simps option.distinct)
  show ?thesis
    using c locator_square_spans[OF assms] center_ne_corner[OF assms] by simp
qed

theorem gridToLatLon_center_witness:
  "locator_square ''JO62qm'' =
     Some \<lparr> sw_lat = 52 + 12 / 24, sw_lon = 12 + 16 / 12, lat_span = 1 / 24, lon_span = 1 / 12 \<rparr>
   \<and> gridToLatLon ''JO62qm'' = Some \<lparr> lat = Fin (52 + 25 / 48), lon = Fin (12 + 33 / 24) \<rparr>"
proof -
  have q: "locator_square ''JO62qm'' =
     Some \<lparr> sw_lat = 52 + 12 / 24, sw_lon = 12 + 16 / 12, lat_span = 1 / 24, lon_span = 1 / 12 \<rparr>"
    by (simp add: field_pos_def digit_pos_def subsquare_pos_def letter_pos_def)
  show ?thesis
    using q gridToLatLon_center[OF q] by (simp add: center_def)
qed

section \<open>Properties of the classifiers\<close>

lemma jsge_Fin [simp]: "jsge (Fin a) (Fin b) = (b \<le> a)"
  by (auto simp: jsge_def)

text \<open>
  Claim C4: for every frequency value the band classifier divides the value by 1000 and
  maps the quotient through the fixed table of ranges in MHz (lower bound included, upper
  bound excluded) of the bands 160m, 80m, 60m, 40m, 30m, 20m, 17m, 15m, 12m, 10m, 6m,
  which are pairwise disjoint, and returns \<open>Other\<close> for a value in none of them (also
  for a value that is not finite); 7100 is in 40m, 7300 in none, 14349 in 20m and
  14350 in none.
\<close>

theorem freqToBand_table:
  "freqToBand (Fin khz) = table_band (khz / 1000) \<and>
   length (filter (in_range (khz / 1000)) band_table) \<le> 1 \<and>
   ranges_disjoint band_table \<and>
   map (\<lambda>r. snd (snd r)) band_table =
     [''160m'', ''80m'', ''60m'', ''40m'', ''30m'', ''20m'', ''17m'', ''15m'', ''12m'', ''10m'', ''6m''] \<and>
   freqToBand NaN = ''Other'' \<and> freqToBand PInf = ''Other'' \<and> freqToBand NInf = ''Other'' \<and>
   freqToBand (Fin 7100) = ''40m'' \<and> freqToBand (Fin 7300) = ''Other'' \<and>
   freqToBand (Fin 14349) = ''20m'' \<and> freqToBand (Fin 14350) = ''Other''"
proof -
  have t: "freqToBand (Fin khz) = table_band (khz / 1000)"
    unfolding freqToBand_def table_band_def band_table_def in_range_def Let_def by simp
  have u: "length (filter (in_range (khz / 1000)) band_table) \<le> 1"
    unfolding band_table_def in_range_def by simp
  have d: "ranges_disjoint band_table"
    unfolding band_table_def by simp
  have n: "map (\<lambda>r. snd (snd r)) band_table =
     [''160m'', ''80m'', ''60m'', ''40m'', ''30m'', ''20m'', ''17m'', ''15m'', ''12m'', ''10m'', ''6m'']"
    unfolding band_table_def by simp
  have s: "freqToBand NaN = ''Other'' \<and> freqToBand PInf = ''Other'' \<and> freqToBand NInf = ''Other''"
    by (simp add: freqToBand_def jsge_def inf_of_sign_def)
  have e: "freqToBand (Fin 7100) = ''40m'' \<and> freqToBand (Fin 7300) = ''Other'' \<and>
           freqToBand (Fin 14349) = ''20m'' \<and> freqToBand (Fin 14350) = ''Other''"
    by (simp add: freqToBand_def)
  show ?thesis using t u d n s e by simp
qed

text \<open>
  Claim C8: the signal classifier partitions SNR into the five tiers below 0, 0 to 10,
  10 to 20, 20 to 30 and 30 or more. Two values of one tier get the same colour and the
  same marker radius, two values of different tiers get different colours, and a value of
  a lower tier gets a strictly smaller radius than a value of a higher tier. An absent
  SNR (\<^verbatim>\<open>undefined\<close> or \<^verbatim>\<open>null\<close>) gets the neutral gray \<open>#888888\<close>, which is
  none of the tier colours, and the smallest radius.
\<close>

theorem snr_tiers:
  "1 \<le> snr_tier x \<and> snr_tier x \<le> 5 \<and>
   (snr_tier x = snr_tier y \<longrightarrow>
      getSNRColor (Val (Fin x)) = getSNRColor (Val (Fin y)) \<and>
      getMarkerSize (Val (Fin x)) = getMarkerSize (Val (Fin y))) \<and>
   (snr_tier x \<noteq> snr_tier y \<longrightarrow> getSNRColor (Val (Fin x)) \<noteq> getSNRColor (Val (Fin y))) \<and>
   (snr_tier x < snr_tier y \<longrightarrow> getMarkerSize (Val (Fin x)) < getMarkerSize (Val (Fin y))) \<and>
   getSNRColor Undefined = ''#888888'' \<and> getSNRColor Null = ''#888888'' \<and>
   getSNRColor (Val (Fin x)) \<noteq> ''#888888'' \<and>
   getMarkerSize Undefined = 6 \<and> getMarkerSize Null = 6 \<and>
   getMarkerSize Undefined \<le> getMarkerSize s"
proof -
  have a: "getMarkerSize Undefined \<le> getMarkerSize s"
    by (simp add: getMarkerSize_def split: jsval.splits)
  have b: "1 \<le> snr_tier x \<and> snr_tier x \<le> 5 \<and>
   (snr_tier x = snr_tier y \<longrightarrow>
      getSNRColor (Val (Fin x)) = getSNRColor (Val (Fin y)) \<and>
      getMarkerSize (Val (Fin x)) = getMarkerSize (Val (Fin y))) \<and>
   (snr_tier x \<noteq> snr_tier y \<longrightarrow> getSNRColor (Val (Fin x)) \<noteq> getSNRColor (Val (Fin y))) \<and>
   (snr_tier x < snr_tier y \<longrightarrow> getMarkerSize (Val (Fin x)) < getMarkerSize (Val (Fin y)))"
    by (simp add: snr_tier_def getSNRColor_def getMarkerSize_def)
  have c: "getSNRColor Undefined = ''#888888'' \<and> getSNRColor Null = ''#888888'' \<and>
   getSNRColor (Val (Fin x)) \<noteq> ''#888888'' \<and>
   getMarkerSize Undefined = 6 \<and> getMarkerSize Null = 6"
    by (simp add: getSNRColor_def getMarkerSize_def)
  show ?thesis using a b c by simp
qed

theorem snr_tiers_witness:
  "map snr_tier [- 5, 5, 15, 25, 35] = [1, 2, 3, 4, 5] \<and>
   map (\<lambda>x. getSNRColor (Val (Fin x))) [- 5, 5, 15, 25, 35] =
     [''#ff3333'', ''#ff9933'', ''#ffcc33'', ''#99ff33'', ''#33ff33''] \<and>
   map (\<lambda>x. getMarkerSize (Val (Fin x))) [- 5, 5, 15, 25, 35] = [6, 8, 10, 12, 14] \<and>
   getSNRColor (Val (Fin 0)) = getSNRColor (Val (Fin 5)) \<and>
   getSNRColor (Val (Fin (- 5))) \<noteq> getSNRColor (Val (Fin 5)) \<and>
   getMarkerSize (Val (Fin (- 5))) < getMarkerSize (Val (Fin 5))"
proof -
  have t: "map snr_tier [- 5, 5, 15, 25, 35] = [1, 2, 3, 4, 5]"
    by (simp add: snr_tier_def)
  have v: "map (\<lambda>x. getSNRColor (Val (Fin x))) [- 5, 5, 15, 25, 35] =
     [''#ff3333'', ''#ff9933'', ''#ffcc33'', ''#99ff33'', ''#33ff33''] \<and>
     map (\<lambda>x. getMarkerSize (Val (Fin x))) [- 5, 5, 15, 25, 35] = [6, 8, 10, 12, 14]"
    by (simp add: getSNRColor_def getMarkerSize_def)
  have e: "snr_tier 0 = snr_tier 5" "snr_tier (- 5) \<noteq> snr_tier 5" "snr_tier (- 5) < snr_tier 5"
    by (simp_all add: snr_tier_def)
  show ?thesis
    using t v e snr_tiers[of 0 5] snr_tiers[of "- 5" 5] by simp
qed

section \<open>Properties of the great-circle path\<close>

subsection \<open>Rounding to a double\<close>

lemma round_even_le: "q < of_int K - 1 / 2 \<Longrightarrow> round_even q \<le> K - 1"
  unfolding round_even_def Let_def by (auto; linarith)

lemma round_even_ge: "of_int K \<le> q \<Longrightarrow> K \<le> round_even q"
  unfolding round_even_def Let_def by (auto simp: le_floor_iff; linarith)

lemma round_even_nonneg: "0 \<le> q \<Longrightarrow> 0 \<le> round_even q"
  using round_even_ge[of 0 q] by simp

lemma round_even_tie:
  assumes "of_int K - 1 / 2 \<le> q" "q < of_int K" "even K"
  shows "round_even q = K"
proof -
  have f: "\<lfloor>q\<rfloor> = K - 1" using assms by linarith
  have o: "odd (K - 1)" using assms(3) by simp
  show ?thesis using assms o unfolding round_even_def Let_def f by auto
qed

lemma binary64_half_abs:
  "jslt (jsabs (binary64 x)) (Fin (1 / 2)) = (\<bar>x\<bar> < 1 / 2 - 1 / 2 ^ 55)"
proof (cases "x = 0")
  case True
  then show ?thesis by (simp add: binary64_def)
next
  case nz: False
  define e where "e = max \<lfloor>log 2 \<bar>x\<bar>\<rfloor> (- 1022)"
  define u :: real where "u = 2 powr (of_int e - 52)"
  define m :: real where "m = of_int (round_even (\<bar>x\<bar> / u)) * u"
  have upos: "0 < u" by (simp add: u_def)
  have mnn: "0 \<le> m" unfolding m_def using upos round_even_nonneg[of "\<bar>x\<bar> / u"] by simp
  have b: "binary64 x = (if 2 powr 1024 \<le> m then (if 0 < x then PInf else NInf) else Fin (sgn x * m))"
    using nz by (simp add: binary64_def Let_def e_def u_def m_def)
  have a: "jslt (jsabs (binary64 x)) (Fin (1 / 2)) = (m < 2 powr 1024 \<and> m < 1 / 2)"
    using nz mnn by (auto simp: b abs_mult sgn_if)
  have big: "(1::real) / 2 < 2 powr 1024"
  proof -
    have "(1::real) / 2 < 2 powr 0" by simp
    also have "\<dots> \<le> 2 powr 1024" by (rule powr_mono) simp_all
    finally show ?thesis .
  qed
  have a': "jslt (jsabs (binary64 x)) (Fin (1 / 2)) = (m < 1 / 2)"
    using a big by auto
  show ?thesis
  proof (cases "\<bar>x\<bar> < 1 / 2")
    case False
    have xpos: "0 < \<bar>x\<bar>" using nz by simp
    have "log 2 (1 / 2) \<le> log 2 \<bar>x\<bar>"
      using False by (intro log_mono) simp_all
    moreover have "log 2 (1 / 2) = - 1"
      by (simp add: log_divide)
    ultimately have "- 1 \<le> log 2 \<bar>x\<bar>" by simp
    then have fl: "- 1 \<le> \<lfloor>log 2 \<bar>x\<bar>\<rfloor>" by linarith
    then have e: "e = \<lfloor>log 2 \<bar>x\<bar>\<rfloor>" "- 1 \<le> e" unfolding e_def by linarith+
    have lo: "2 powr (of_int e) \<le> \<bar>x\<bar>"
      using floor_log_eq_powr_iff[of "\<bar>x\<bar>" 2 e] xpos e(1) by simp
    have u2: "2 powr (of_int e) = 2 ^ 52 * u"
    proof -
      have "(2::real) powr (of_int e) = 2 powr (52 + (of_int e - 52))" by simp
      also have "\<dots> = 2 powr 52 * 2 powr (of_int e - 52)" by (rule powr_add)
      also have "(2::real) powr 52 = 2 ^ 52" by (rule powr_numeral) simp
      finally show ?thesis by (simp add: u_def)
    qed
    have "of_int (2 ^ 52) \<le> \<bar>x\<bar> / u"
      using lo upos by (simp add: u2 le_divide_eq)
    then have "2 ^ 52 \<le> round_even (\<bar>x\<bar> / u)" by (rule round_even_ge)
    then have "(of_int (2 ^ 52) :: real) \<le> of_int (round_even (\<bar>x\<bar> / u))"
      by (simp only: of_int_le_iff)
    then have "(2::real) ^ 52 \<le> of_int (round_even (\<bar>x\<bar> / u))"
      by simp
    then have "2 ^ 52 * u \<le> m"
      unfolding m_def using upos by (simp add: mult_right_mono)
    moreover have "(1::real) / 2 \<le> 2 powr (of_int e)"
    proof -
      have "(2::real) powr (- 1) \<le> 2 powr (of_int e)"
        using e(2) by (intro powr_mono) simp_all
      then show ?thesis by (simp add: powr_minus inverse_eq_divide)
    qed
    ultimately have "1 / 2 \<le> m" using u2 by linarith
    then show ?thesis using False a' by auto
  next
    case True
    have xpos: "0 < \<bar>x\<bar>" using nz by simp
    have "log 2 \<bar>x\<bar> < log 2 (1 / 2)"
      using True xpos by (simp add: log_less_cancel_iff del: log_divide)
    moreover have "log 2 (1 / 2) = - 1"
      by (simp add: log_divide)
    ultimately have "log 2 \<bar>x\<bar> < - 1" by simp
    then have "\<lfloor>log 2 \<bar>x\<bar>\<rfloor> < - 1" by linarith
    then have e2: "e \<le> - 2" unfolding e_def by linarith
    define j where "j = nat (- 2 - e)"
    have ej: "of_int e - 52 = - real (54 + j)"
      using e2 by (simp add: j_def)
    have u: "u = 1 / 2 ^ (54 + j)"
    proof -
      have "u = 2 powr (- real (54 + j))" by (simp only: u_def ej)
      also have "\<dots> = inverse (2 powr real (54 + j))" by (rule powr_minus)
      also have "(2::real) powr real (54 + j) = 2 ^ (54 + j)" by (rule powr_realpow) simp
      finally show ?thesis by (simp only: inverse_eq_divide)
    qed
    have q: "\<bar>x\<bar> / u = \<bar>x\<bar> * 2 ^ (54 + j)" by (simp add: u)
    show ?thesis
    proof (cases "\<bar>x\<bar> < 1 / 2 - 1 / 2 ^ 55")
      case small: True
      have "\<bar>x\<bar> * 2 ^ (54 + j) < (1 / 2 - 1 / 2 ^ 55) * 2 ^ (54 + j)"
        using small by (simp add: mult_strict_right_mono)
      also have "\<dots> = 2 ^ (53 + j) - 2 ^ j / 2"
        by (simp add: power_add field_simps)
      also have "\<dots> \<le> 2 ^ (53 + j) - 1 / 2"
        by simp
      finally have "\<bar>x\<bar> / u < of_int (2 ^ (53 + j)) - 1 / 2" by (simp add: q)
      then have "round_even (\<bar>x\<bar> / u) \<le> 2 ^ (53 + j) - 1" by (rule round_even_le)
      then have "(of_int (round_even (\<bar>x\<bar> / u)) :: real) \<le> of_int (2 ^ (53 + j) - 1)"
        by (simp only: of_int_le_iff)
      then have "of_int (round_even (\<bar>x\<bar> / u)) \<le> (2::real) ^ (53 + j) - 1"
        by simp
      then have "m \<le> (2 ^ (53 + j) - 1) * u"
        unfolding m_def using upos by (simp add: mult_right_mono)
      also have "\<dots> = 1 / 2 - u"
        by (simp add: u power_add field_simps)
      finally have "m < 1 / 2" using upos by simp
      then show ?thesis using small a' by simp
    next
      case tie: False
      have "(1::real) / 4 \<le> 1 / 2 - 1 / 2 ^ 55" by simp
      then have q4: "1 / 4 \<le> \<bar>x\<bar>" using tie by linarith
      have "\<lfloor>log 2 \<bar>x\<bar>\<rfloor> = - 2"
        using floor_log_eq_powr_iff[of "\<bar>x\<bar>" 2 "- 2"] xpos q4 True
        by (simp add: powr_minus inverse_eq_divide)
      then have "e = - 2" unfolding e_def by linarith
      then have j0: "j = 0" by (simp add: j_def)
      have r: "round_even (\<bar>x\<bar> / u) = 2 ^ 53"
      proof (rule round_even_tie)
        show "of_int (2 ^ 53) - 1 / 2 \<le> \<bar>x\<bar> / u"
          using tie by (simp add: q j0 field_simps)
        show "\<bar>x\<bar> / u < of_int (2 ^ 53)"
          using True by (simp add: q j0 field_simps)
        show "even ((2::int) ^ 53)" by simp
      qed
      have "m = 1 / 2" unfolding m_def r by (simp add: u j0)
      then show ?thesis using tie a' by simp
    qed
  qed
qed


lemma binary64_eval:
  assumes "0 < x" and "(2::real) powr (of_int e) \<le> x" and "x < (2::real) powr (of_int e + 1)"
    and "- 1022 \<le> e"
    and "round_even (x / (2::real) powr (of_int e - 52)) = n"
    and "of_int n * (2::real) powr (of_int e - 52) < 2 powr 1024"
  shows "binary64 x = Fin (of_int n * (2::real) powr (of_int e - 52))"
proof -
  have "\<lfloor>log 2 x\<rfloor> = e"
    using floor_log_eq_powr_iff[of x 2 e] assms(1,2,3) by simp
  then have m: "max \<lfloor>log 2 x\<rfloor> (- 1022) = e"
    using assms(4) by simp
  show ?thesis
    using assms(1,5,6) by (simp add: binary64_def m Let_def)
qed

lemma one_less_overflow: "(1::real) < 2 powr 1024"
proof -
  have "(1::real) = 2 powr 0" by simp
  also have "\<dots> < 2 powr 1024" by (rule powr_less_mono) simp_all
  finally show ?thesis .
qed

lemma two_powr_neg:
  "(2::real) powr (- numeral k) = 1 / 2 ^ numeral k" "(2::real) powr (- 1) = 1 / 2"
  using powr_minus[of "2::real" "numeral k"] powr_minus[of "2::real" 1]
  by (simp_all add: inverse_eq_divide)

lemma binary64_tenth: "binary64 (1 / 10) = Fin (3602879701896397 / 2 ^ 55)"
proof -
  have r: "round_even ((1 / 10) / (2 powr (of_int (- 4) - 52))) = 7205759403792794"
    unfolding round_even_def Let_def by (simp add: two_powr_neg)
  have "binary64 (1 / 10) = Fin (of_int 7205759403792794 * 2 powr (of_int (- 4) - 52))"
    by (intro binary64_eval r) (simp_all add: two_powr_neg)
  then show ?thesis by (simp add: two_powr_neg)
qed

lemma binary64_six_tenths: "binary64 (6 / 10) = Fin (5404319552844595 / 2 ^ 53)"
proof -
  have r: "round_even ((6 / 10) / (2 powr (of_int (- 1) - 52))) = 5404319552844595"
    unfolding round_even_def Let_def by (simp add: two_powr_neg)
  have "binary64 (6 / 10) = Fin (of_int 5404319552844595 * 2 powr (of_int (- 1) - 52))"
    by (intro binary64_eval r) (simp_all add: two_powr_neg)
  then show ?thesis by (simp add: two_powr_neg)
qed

lemma binary64_difference:
  "binary64 (5404319552844595 / 2 ^ 53 - 3602879701896397 / 2 ^ 55) = Fin (1 / 2)"
proof -
  have r: "round_even ((5404319552844595 / 2 ^ 53 - 3602879701896397 / 2 ^ 55)
             / (2 powr (of_int (- 2) - 52))) = 9007199254740992"
    unfolding round_even_def Let_def by (simp add: two_powr_neg)
  have "binary64 (5404319552844595 / 2 ^ 53 - 3602879701896397 / 2 ^ 55)
          = Fin (of_int 9007199254740992 * 2 powr (of_int (- 2) - 52))"
    by (intro binary64_eval r) (simp_all add: two_powr_neg)
  then show ?thesis by (simp add: two_powr_neg)
qed

text \<open>
  The guard of line 81 on a computed difference: the rounded difference is below 0.5
  exactly when the exact one is below 0.5 less one part in \<open>2\<close> to the power 55, which
  is half the distance from 0.5 to the double below it.
\<close>

lemma guard_delta:
  "jslt (jsabs (jssub64 (Fin c) (Fin a))) (Fin (1 / 2)) = (\<bar>c - a\<bar> < 1 / 2 - 1 / 2 ^ 55)"
  by (simp add: jssub64_def jssub_def binary64_half_abs)

lemma snd_pathPoint: "snd (pathPoint p q r s d n i) = [jssin d, jssin d]"
  by (simp add: pathPoint_def Let_def)

lemma length_divisors:
  "length (concat (map (snd \<circ> pathPoint p q r s d n) xs)) = 2 * length xs"
  by (induction xs) (simp_all add: snd_pathPoint)

lemma run_past_guards:
  assumes "\<not> (\<bar>c - a\<bar> < 1 / 2 - 1 / 2 ^ 55 \<and> \<bar>e - b\<bar> < 1 / 2 - 1 / 2 ^ 55)"
  shows "length (getGreatCirclePath (Fin a) (Fin b) (Fin c) (Fin e) n) = Suc n \<and>
         length (sinDivisors (Fin a) (Fin b) (Fin c) (Fin e) n) = 2 * Suc n"
  using assms
  by (simp add: getGreatCirclePath_def sinDivisors_def greatCircleRun_def Let_def guard_delta
      length_divisors del: upt_Suc)

subsection \<open>The guards\<close>

text \<open>
  Claim C7, as the specification states it: for every pair of coordinates whose absolute
  latitude difference and absolute longitude difference are both below 0.5 degree the
  path generator returns the two-point segment and evaluates no division by
  \<^verbatim>\<open>Math.sin(d)\<close>. The code compares the difference that the subtraction computes,
  which is rounded. From latitude 0.1 to latitude 0.6 on one meridian (the doubles of
  these literals) the exact difference is below 0.5, the computed difference is 0.5, the
  guard of line 81 fails, and the loop returns 31 points after 62 divisions.
\<close>

theorem getGreatCirclePath_rounded_guard_counterexample:
  "binary64 (1 / 10) = Fin (3602879701896397 / 2 ^ 55) \<and>
   binary64 (6 / 10) = Fin (5404319552844595 / 2 ^ 53) \<and>
   coord_delta \<lparr> lat = Fin (3602879701896397 / 2 ^ 55), lon = Fin 0 \<rparr>
               \<lparr> lat = Fin (5404319552844595 / 2 ^ 53), lon = Fin 0 \<rparr>
     = (Fin (1 / 2 - 1 / 2 ^ 55), Fin 0) \<and>
   jslt (Fin (1 / 2 - 1 / 2 ^ 55)) (Fin (1 / 2)) \<and>
   jssub64 (Fin (5404319552844595 / 2 ^ 53)) (Fin (3602879701896397 / 2 ^ 55)) = Fin (1 / 2) \<and>
   length (getGreatCirclePath (Fin (3602879701896397 / 2 ^ 55)) (Fin 0)
                              (Fin (5404319552844595 / 2 ^ 53)) (Fin 0) 30) = 31 \<and>
   length (sinDivisors (Fin (3602879701896397 / 2 ^ 55)) (Fin 0)
                       (Fin (5404319552844595 / 2 ^ 53)) (Fin 0) 30) = 62"
proof -
  have d: "coord_delta \<lparr> lat = Fin (3602879701896397 / 2 ^ 55), lon = Fin 0 \<rparr>
               \<lparr> lat = Fin (5404319552844595 / 2 ^ 53), lon = Fin 0 \<rparr>
             = (Fin (1 / 2 - 1 / 2 ^ 55), Fin 0) \<and>
           jslt (Fin (1 / 2 - 1 / 2 ^ 55)) (Fin (1 / 2))"
    by (simp add: coord_delta_def jssub_def)
  have s: "jssub64 (Fin (5404319552844595 / 2 ^ 53)) (Fin (3602879701896397 / 2 ^ 55))
             = Fin (1 / 2)"
    using binary64_difference by (simp add: jssub64_def jssub_def)
  have g: "\<not> (\<bar>5404319552844595 / 2 ^ 53 - 3602879701896397 / 2 ^ 55\<bar> < (1::real) / 2 - 1 / 2 ^ 55
             \<and> \<bar>0 - 0\<bar> < (1::real) / 2 - 1 / 2 ^ 55)"
    by simp
  show ?thesis
    using binary64_tenth binary64_six_tenths d s run_past_guards[OF g, of 30] by simp
qed

text \<open>
  Claim C7, amended: for every pair of coordinates whose absolute latitude difference
  and absolute longitude difference, as the subtractions of lines 79-80 compute them in
  double arithmetic, are both below 0.5 degree, the path generator returns exactly the
  two-point segment of its arguments and evaluates no division by \<^verbatim>\<open>Math.sin(d)\<close>,
  so none by zero. A computed difference is below 0.5 exactly when the exact difference
  is below 0.5 less one part in \<open>2\<close> to the power 55, so two identical coordinates are
  among these pairs. The same holds for every pair with a component that is not finite.
\<close>

theorem getGreatCirclePath_computed_guards:
  "(jslt (jsabs (jssub64 (Fin c) (Fin a))) (Fin (1 / 2)) \<and>
    jslt (jsabs (jssub64 (Fin e) (Fin b))) (Fin (1 / 2)) \<longrightarrow>
      getGreatCirclePath (Fin a) (Fin b) (Fin c) (Fin e) n = [(Fin a, Fin b), (Fin c, Fin e)] \<and>
      sinDivisors (Fin a) (Fin b) (Fin c) (Fin e) n = []) \<and>
   jslt (jsabs (jssub64 (Fin c) (Fin a))) (Fin (1 / 2)) = (\<bar>c - a\<bar> < 1 / 2 - 1 / 2 ^ 55) \<and>
   jslt (jsabs (jssub64 (Fin a) (Fin a))) (Fin (1 / 2)) \<and>
   (\<not> isFinite lat1 \<or> \<not> isFinite lon1 \<or> \<not> isFinite lat2 \<or> \<not> isFinite lon2 \<longrightarrow>
      getGreatCirclePath lat1 lon1 lat2 lon2 n = [(lat1, lon1), (lat2, lon2)] \<and>
      sinDivisors lat1 lon1 lat2 lon2 n = [])"
proof -
  have 1: "jslt (jsabs (jssub64 (Fin c) (Fin a))) (Fin (1 / 2)) \<and>
           jslt (jsabs (jssub64 (Fin e) (Fin b))) (Fin (1 / 2)) \<longrightarrow>
      getGreatCirclePath (Fin a) (Fin b) (Fin c) (Fin e) n = [(Fin a, Fin b), (Fin c, Fin e)] \<and>
      sinDivisors (Fin a) (Fin b) (Fin c) (Fin e) n = []"
    by (simp add: getGreatCirclePath_def sinDivisors_def greatCircleRun_def Let_def)
  have 2: "jslt (jsabs (jssub64 (Fin a) (Fin a))) (Fin (1 / 2))"
    by (simp add: guard_delta)
  have 3: "\<not> isFinite lat1 \<or> \<not> isFinite lon1 \<or> \<not> isFinite lat2 \<or> \<not> isFinite lon2 \<longrightarrow>
      getGreatCirclePath lat1 lon1 lat2 lon2 n = [(lat1, lon1), (lat2, lon2)] \<and>
      sinDivisors lat1 lon1 lat2 lon2 n = []"
    by (auto simp: getGreatCirclePath_def sinDivisors_def greatCircleRun_def)
  show ?thesis using 1 2 3 guard_delta by blast
qed

theorem getGreatCirclePath_computed_guards_witness:
  "getGreatCirclePath (Fin 43) (Fin (- 79)) (Fin 43) (Fin (- 79)) 30
     = [(Fin 43, Fin (- 79)), (Fin 43, Fin (- 79))] \<and>
   sinDivisors (Fin 43) (Fin (- 79)) (Fin 43) (Fin (- 79)) 30 = [] \<and>
   getGreatCirclePath (Fin 43) (Fin (- 79)) (Fin (173 / 4)) (Fin (- 315 / 4)) 30
     = [(Fin 43, Fin (- 79)), (Fin (173 / 4), Fin (- 315 / 4))] \<and>
   getGreatCirclePath (Fin 43) (Fin (- 79)) NaN NaN 30 = [(Fin 43, Fin (- 79)), (NaN, NaN)] \<and>
   sinDivisors (Fin 43) (Fin (- 79)) NaN NaN 30 = []"
proof -
  have g: "jslt (jsabs (jssub64 (Fin 43) (Fin 43))) (Fin (1 / 2))"
    "jslt (jsabs (jssub64 (Fin (- 79)) (Fin (- 79)))) (Fin (1 / 2))"
    "jslt (jsabs (jssub64 (Fin (173 / 4)) (Fin 43))) (Fin (1 / 2))"
    "jslt (jsabs (jssub64 (Fin (- 315 / 4)) (Fin (- 79)))) (Fin (1 / 2))"
    by (simp_all add: guard_delta)
  show ?thesis
    using g
      getGreatCirclePath_computed_guards[of 43 43 "- 79" "- 79" 30 "Fin 43" "Fin (- 79)" NaN NaN]
      getGreatCirclePath_computed_guards[of "173 / 4" 43 "- 315 / 4" "- 79" 30 "Fin 43" "Fin (- 79)" NaN NaN]
    by simp
qed

text \<open>
  Outside the guards the divisor can be zero: from the pole to the pole, 10 degrees of
  longitude apart, \<^verbatim>\<open>d\<close> is 0 and every point of the path is \<open>NaN\<close>.
\<close>

lemma getGreatCirclePath_pole:
  "getGreatCirclePath (Fin 90) (Fin 0) (Fin 90) (Fin 10) 2 = [(NaN, NaN), (NaN, NaN), (NaN, NaN)] \<and>
   sinDivisors (Fin 90) (Fin 0) (Fin 90) (Fin 10) 2 = [Fin 0, Fin 0, Fin 0, Fin 0, Fin 0, Fin 0]"
  by (simp add: getGreatCirclePath_def sinDivisors_def greatCircleRun_def jssub_def Let_def
      guard_delta toRadians_def toDegrees_def pathPoint_def upt_rec inf_of_sign_def)

section \<open>Properties of the statistics\<close>

lemma computeStats_counts:
  "total_spots (computeStats xs) = length xs \<and>
   skimmers (computeStats xs) = card (set (map (\<lambda>s. js_or truthy_str (callsign s) (de s)) xs))"
  by (simp add: computeStats_def uniqueSkimmers_def length_remdups_card_conv)

lemmas stats_eval = computeStats_def validSNRs_def uniqueSkimmers_def js_or_def truthy_str_def
  round_half_away_def

text \<open>
  The examples of the specification: SNR values 10, 20 and none give the average 15.0 and
  the total 3, and two records of one reporter give one unique reporter.
\<close>

lemma computeStats_examples:
  "computeStats
     [\<lparr> timestamp = Undefined, time = Undefined, snr = Val (Fin 10), db = Undefined,
        callsign = Val ''W3LPL'', de = Undefined, grid = Undefined, de_grid = Undefined,
        frequency = Undefined, freq = Undefined \<rparr>,
      \<lparr> timestamp = Undefined, time = Undefined, snr = Undefined, db = Val (Fin 20),
        callsign = Undefined, de = Val ''W3LPL'', grid = Undefined, de_grid = Undefined,
        frequency = Undefined, freq = Undefined \<rparr>,
      \<lparr> timestamp = Undefined, time = Undefined, snr = Undefined, db = Null,
        callsign = Val ''K1TTT'', de = Undefined, grid = Undefined, de_grid = Undefined,
        frequency = Undefined, freq = Undefined \<rparr>]
   = \<lparr> total_spots = 3, skimmers = 2, avgSNR = Fin 15 \<rparr>"
  by (simp add: stats_eval)

text \<open>
  Where no record carries the number 0 in its field \<^verbatim>\<open>snr\<close>, the average is the one
  the specification asks for: the fallback \<^verbatim>\<open>s.snr || s.db\<close> then selects exactly
  the values that are present.
\<close>

lemma validSNRs_regular:
  "list_all snr_fields_regular xs \<Longrightarrow>
   validSNRs xs = map (\<lambda>x. Val (Fin x)) (concat (map present_snr xs))"
proof (induction xs)
  case Nil
  show ?case by (simp add: validSNRs_def)
next
  case (Cons s xs)
  then have t: "validSNRs xs = map (\<lambda>x. Val (Fin x)) (concat (map present_snr xs))"
    by simp
  have h: "filter (\<lambda>v. v \<noteq> Null \<and> v \<noteq> Undefined) [js_or truthy_num (snr s) (db s)]
             = map (\<lambda>x. Val (Fin x)) (present_snr s)"
    using Cons.prems
    by (auto simp: snr_fields_regular_def js_or_def present_snr_def
        split: jsval.splits jsnum.splits)
  have "validSNRs (s # xs) =
          filter (\<lambda>v. v \<noteq> Null \<and> v \<noteq> Undefined) [js_or truthy_num (snr s) (db s)] @ validSNRs xs"
    by (simp add: validSNRs_def)
  also have "\<dots> = map (\<lambda>x. Val (Fin x)) (present_snr s) @
                   map (\<lambda>x. Val (Fin x)) (concat (map present_snr xs))"
    by (simp only: h t)
  finally show ?case by simp
qed

lemma foldl_jsadd_Fin:
  "foldl (\<lambda>a b. jsadd a (toNumber b)) (Fin a0) (map (\<lambda>x. Val (Fin x)) ys) = Fin (a0 + sum_list ys)"
  by (induction ys arbitrary: a0) (simp_all add: add.assoc)

lemma computeStats_average_regular:
  assumes "list_all snr_fields_regular xs"
    and "\<bar>sum_list (concat (map present_snr xs))\<bar> < 10 ^ 21"
  shows "avgSNR (computeStats xs) = Fin (spec_average xs)"
proof (cases "concat (map present_snr xs) = []")
  case True
  then show ?thesis
    by (simp add: computeStats_def validSNRs_regular[OF assms(1)] spec_average_def)
next
  case False
  let ?ys = "concat (map present_snr xs)"
  have n: "1 \<le> real (length ?ys)"
    using False by (cases ?ys) simp_all
  have "\<bar>sum_list ?ys\<bar> / real (length ?ys) \<le> \<bar>sum_list ?ys\<bar> / 1"
    using n by (intro frac_le) simp_all
  then have b: "\<not> 10 ^ 21 \<le> \<bar>sum_list ?ys / real (length ?ys)\<bar>"
    using assms(2) by (simp add: abs_divide)
  have v: "validSNRs xs = map (\<lambda>x. Val (Fin x)) ?ys"
    by (rule validSNRs_regular[OF assms(1)])
  have l: "length (validSNRs xs) = length ?ys" "0 < length ?ys"
    using False by (simp_all add: v)
  have s: "foldl (\<lambda>a b. jsadd a (toNumber b)) (Fin 0) (validSNRs xs) = Fin (sum_list ?ys)"
    by (simp add: v foldl_jsadd_Fin)
  have q: "jsdiv (Fin (sum_list ?ys)) (Fin (real (length ?ys)))
             = Fin (sum_list ?ys / real (length ?ys))"
    using False by (simp only: jsdiv.simps of_nat_eq_0_iff length_0_conv if_False)
  have f: "toFixed1 (Fin (sum_list ?ys / real (length ?ys)))
             = Fin (of_int (round_half_away (sum_list ?ys / real (length ?ys) * 10)) / 10)"
    using b by simp
  have "avgSNR (computeStats xs) = toFixed1 (Fin (sum_list ?ys / real (length ?ys)))"
    using False by (simp add: computeStats_def l(1) s q del: jsdiv.simps toFixed1.simps)
  also have "\<dots> = Fin (spec_average xs)"
    using False by (simp only: f spec_average_def Let_def if_False)
  finally show ?thesis .
qed

text \<open>
  Claim C1: the statistics of a refresh give the number of retained spots, the number of
  distinct reporter identifiers, and as average the arithmetic mean of all SNR values
  that are present, rounded to one decimal place (0 when none is present). The counts
  are as claimed (\<open>computeStats_counts\<close>), and so is the average while no record has the
  number 0 in \<^verbatim>\<open>snr\<close> (\<open>computeStats_average_regular\<close>). The code breaks the claim
  where a record carries the SNR value 0 in \<^verbatim>\<open>snr\<close> and no \<^verbatim>\<open>db\<close>:
  \<^verbatim>\<open>s.snr || s.db\<close> is then \<^verbatim>\<open>undefined\<close>, and the value is left out of the
  average. Of two records with the SNR values 0 and 10 the code reports the average 10.0,
  where the mean of the values that are present is 5.0.
\<close>

theorem computeStats_zero_snr_dropped:
  "avgSNR (computeStats
     [\<lparr> timestamp = Undefined, time = Undefined, snr = Val (Fin 0), db = Undefined,
        callsign = Val ''W3LPL'', de = Undefined, grid = Undefined, de_grid = Undefined,
        frequency = Undefined, freq = Undefined \<rparr>,
      \<lparr> timestamp = Undefined, time = Undefined, snr = Val (Fin 10), db = Undefined,
        callsign = Val ''K1TTT'', de = Undefined, grid = Undefined, de_grid = Undefined,
        frequency = Undefined, freq = Undefined \<rparr>]) = Fin 10 \<and>
   spec_average
     [\<lparr> timestamp = Undefined, time = Undefined, snr = Val (Fin 0), db = Undefined,
        callsign = Val ''W3LPL'', de = Undefined, grid = Undefined, de_grid = Undefined,
        frequency = Undefined, freq = Undefined \<rparr>,
      \<lparr> timestamp = Undefined, time = Undefined, snr = Val (Fin 10), db = Undefined,
        callsign = Val ''K1TTT'', de = Undefined, grid = Undefined, de_grid = Undefined,
        frequency = Undefined, freq = Undefined \<rparr>] = 5"
  by (simp add: stats_eval spec_average_def present_snr_def)

section \<open>Properties of the redraw pass\<close>

text \<open>
  Claim C10: for every record whose SNR is absent under both spellings (\<^verbatim>\<open>snr\<close> and
  \<^verbatim>\<open>db\<close> are missing or \<^verbatim>\<open>null\<close>) the redraw pass takes the SNR as 0. The record
  passes the filter exactly when it passes the band filter and 0 is at least the SNR
  floor, and every layer drawn for it has the colour of SNR 0, which is the colour
  \<open>#ff9933\<close> of the tier from 0 to 10 and not the gray of an absent SNR; its marker has
  the radius 8 of that tier.
\<close>

theorem absent_snr_is_zero:
  assumes "snr s = Undefined \<or> snr s = Null" and "db s = Undefined \<or> db s = Null"
  shows "spot_snr s = Fin 0 \<and>
         spot_filter band minimum s = ((band = ''All'' \<or> spot_band s = band) \<and> minimum \<le> 0) \<and>
         (\<forall>l \<in> set (renderSpot st home s).
            snr_color l = getSNRColor (Val (Fin 0)) \<and> snr_color l = ''#ff9933'' \<and>
            snr_color l \<noteq> getSNRColor Undefined \<and>
            (marker_radius l = None \<or> marker_radius l = Some (getMarkerSize (Val (Fin 0)))) \<and>
            (marker_radius l = None \<or> marker_radius l = Some 8))"
proof -
  have z: "spot_snr s = Fin 0"
    using assms by (auto simp: spot_snr_def js_or_def or_zero_def)
  have f: "spot_filter band minimum s = ((band = ''All'' \<or> spot_band s = band) \<and> minimum \<le> 0)"
    by (auto simp: spot_filter_def z)
  have c: "getSNRColor (Val (Fin 0)) = ''#ff9933''" "getSNRColor Undefined = ''#888888''"
    "getMarkerSize (Val (Fin 0)) = 8"
    by (simp_all add: getSNRColor_def getMarkerSize_def)
  have r: "\<forall>l \<in> set (renderSpot st home s).
            snr_color l = ''#ff9933'' \<and> (marker_radius l = None \<or> marker_radius l = Some 8)"
    by (auto simp: renderSpot_def z c Let_def split: jsval.splits option.splits)
  show ?thesis using z f r c by simp
qed

theorem absent_snr_is_zero_witness:
  "spot_filter ''All'' (- 10)
     \<lparr> timestamp = Undefined, time = Undefined, snr = Undefined, db = Null,
       callsign = Val ''K1TTT'', de = Undefined, grid = Val ''FN32'', de_grid = Undefined,
       frequency = Val (Fin 7025), freq = Undefined \<rparr> \<and>
   \<not> spot_filter ''All'' 5
     \<lparr> timestamp = Undefined, time = Undefined, snr = Undefined, db = Null,
       callsign = Val ''K1TTT'', de = Undefined, grid = Val ''FN32'', de_grid = Undefined,
       frequency = Val (Fin 7025), freq = Undefined \<rparr> \<and>
   map snr_color (renderSpot (mount True (7 / 10) (Val ''W1AW'') None) defaultLocation
     \<lparr> timestamp = Undefined, time = Undefined, snr = Undefined, db = Null,
       callsign = Val ''K1TTT'', de = Undefined, grid = Val ''FN32'', de_grid = Undefined,
       frequency = Val (Fin 7025), freq = Undefined \<rparr>) = [''#ff9933'', ''#ff9933''] \<and>
   map marker_radius (renderSpot (mount True (7 / 10) (Val ''W1AW'') None) defaultLocation
     \<lparr> timestamp = Undefined, time = Undefined, snr = Undefined, db = Null,
       callsign = Val ''K1TTT'', de = Undefined, grid = Val ''FN32'', de_grid = Undefined,
       frequency = Val (Fin 7025), freq = Undefined \<rparr>) = [None, Some 8]"
proof -
  let ?s = "\<lparr> timestamp = Undefined, time = Undefined, snr = Undefined, db = Null,
       callsign = Val ''K1TTT'', de = Undefined, grid = Val ''FN32'', de_grid = Undefined,
       frequency = Val (Fin 7025), freq = Undefined \<rparr>"
  let ?st = "mount True (7 / 10) (Val ''W1AW'') None"
  have p: "showPaths ?st"
    by (simp add: mount_def rerender_def Let_def depends_def
        disableEffect_def controlEffect_def renderEffect_def fetchEffect_def
        fetchCleanup_def controlCleanupRun_def clearLayers_def fetchRBNSpots_start_def
        callsign_valid_def console_log_def)
  have g: "gridToLatLon ''FN32'' = Some \<lparr> lat = Fin (85 / 2), lon = Fin (- 73) \<rparr>"
    by (simp add: grid_eval toUpperChar_def)
  have shape: "renderSpot ?st defaultLocation ?s =
     [Polyline (getGreatCirclePath (lat defaultLocation) (lon defaultLocation) (Fin (85 / 2)) (Fin (- 73)) 30)
        (getSNRColor (Val (spot_snr ?s))) 2 (opacity ?st * (6 / 10)) ''5, 5'',
      CircleMarker (Fin (85 / 2), Fin (- 73)) (getMarkerSize (Val (spot_snr ?s)))
        (getSNRColor (Val (spot_snr ?s))) ''#ffffff'' 2 (opacity ?st) (opacity ?st * (8 / 10))
        \<lparr> popup_skimmerCall = ''K1TTT'', popup_callsign = callsign_prop ?st,
          popup_snr = spot_snr ?s, popup_band = ''40m'',
          popup_freq = Fin (7025 / 1000), popup_grid = ''FN32'', popup_time = NaN \<rparr>]"
    using p by (simp add: renderSpot_def g js_or_def truthy_str_def or_zero_def or_unknown_def
        freqToBand_def Let_def)
  have b: "spot_band ?s = ''40m''"
    by (simp add: spot_band_def js_or_def or_zero_def freqToBand_def)
  show ?thesis
    using absent_snr_is_zero[of ?s "''All''" "- 10" ?st defaultLocation]
      absent_snr_is_zero[of ?s "''All''" 5 ?st defaultLocation] shape
    by (simp add: getSNRColor_def getMarkerSize_def)
qed

section \<open>Properties of the lifecycle\<close>

subsection \<open>What each effect keeps\<close>

lemma fold_removeLayer:
  "map_layers (fold removeLayer xs m) = fold remove1 xs (map_layers m)"
  by (induction xs arbitrary: m) (simp_all add: removeLayer_def)

lemma fold_remove1_self: "fold remove1 xs (xs @ ys) = ys"
  by (induction xs) simp_all

lemma fold_addLayer: "map_layers (fold addLayer xs m) = map_layers m @ xs"
  by (induction xs arbitrary: m) (simp_all add: addLayer_def)

lemma clearLayers_layers:
  "synced st \<Longrightarrow> map_layers (lmap (clearLayers st)) = [] \<and> layersRef (clearLayers st) = []"
  using fold_remove1_self[of "layersRef st" "[]"]
  by (simp add: synced_def clearLayers_def fold_removeLayer)

lemma clearLayers_keeps [simp]:
  "enabled (clearLayers st) = enabled st"
  "spots (clearLayers st) = spots st"
  "stats (clearLayers st) = stats st"
  "dirty (clearLayers st) = dirty st"
  "controlRef (clearLayers st) = controlRef st"
  "layersRef (clearLayers st) = []"
  by (simp_all add: clearLayers_def)

lemma synced_fetchCleanup: "synced st \<Longrightarrow> synced (fetchCleanup st)"
  by (simp add: synced_def fetchCleanup_def split: option.splits)

lemma synced_start: "synced st \<Longrightarrow> synced (fetchRBNSpots_start st)"
  by (simp add: synced_def fetchRBNSpots_start_def console_log_def split: jsval.splits)

lemma synced_fetchEffect: "synced st \<Longrightarrow> synced (fetchEffect st)"
  using synced_start[of st] by (simp add: synced_def fetchEffect_def Let_def)

lemma synced_controlCleanupRun: "synced st \<Longrightarrow> synced (controlCleanupRun st)"
  by (simp add: synced_def controlCleanupRun_def removeControl_def split: option.splits)

lemma synced_controlEffect: "synced st \<Longrightarrow> synced (controlEffect st)"
  by (simp add: synced_def controlEffect_def addControl_def Let_def)

lemma synced_renderEffect: "synced st \<Longrightarrow> synced (renderEffect st)"
  using clearLayers_layers[of st]
  by (simp add: synced_def renderEffect_def Let_def console_log_def fold_addLayer)

lemma synced_disableEffect: "synced st \<Longrightarrow> synced (disableEffect st)"
  using clearLayers_layers[of st]
  by (simp add: synced_def disableEffect_def Let_def removeControl_def split: option.splits)

lemma synced_if:
  "(\<And>s. synced s \<Longrightarrow> synced (f s)) \<Longrightarrow> synced s \<Longrightarrow> synced (if b then f s else s)"
  by simp

lemma synced_rerender:
  assumes "synced st"
  shows "synced (rerender st)"
proof -
  have 0: "synced (st\<lparr> dirty := [] \<rparr>)"
    using assms by (simp add: synced_def)
  show ?thesis
    unfolding rerender_def Let_def
    by (intro synced_if synced_disableEffect synced_controlEffect synced_renderEffect
        synced_fetchEffect synced_controlCleanupRun synced_fetchCleanup 0)
qed

lemma dirty_effects [simp]:
  "dirty (fetchCleanup st) = dirty st"
  "dirty (fetchRBNSpots_start st) = dirty st"
  "dirty (controlCleanupRun st) = dirty st"
  "dirty (controlEffect st) = dirty st"
  "dirty (renderEffect st) = dirty st"
  "dirty (disableEffect st) = dirty st"
  by (simp_all add: fetchCleanup_def fetchRBNSpots_start_def controlCleanupRun_def
      controlEffect_def renderEffect_def disableEffect_def clearLayers_def console_log_def Let_def
      split: option.splits jsval.splits)

lemma dirty_fetchEffect [simp]: "dirty (fetchEffect st) = dirty st"
  by (simp add: fetchEffect_def Let_def)

lemma dirty_rerender: "dirty (rerender st) = []"
  by (simp add: rerender_def Let_def)

lemma depends_nothing [simp]: "depends deps [] = False"
  by (induction deps) (simp_all add: depends_def)

lemma rerender_idle: "dirty st = [] \<Longrightarrow> rerender st = st"
  by (simp add: rerender_def)

lemma enabled_effects [simp]:
  "enabled (fetchCleanup st) = enabled st"
  "enabled (fetchRBNSpots_start st) = enabled st"
  "enabled (controlCleanupRun st) = enabled st"
  "enabled (controlEffect st) = enabled st"
  "enabled (renderEffect st) = enabled st"
  "enabled (disableEffect st) = enabled st"
  by (simp_all add: fetchCleanup_def fetchRBNSpots_start_def controlCleanupRun_def
      controlEffect_def renderEffect_def disableEffect_def clearLayers_def console_log_def Let_def
      split: option.splits jsval.splits)

lemma enabled_fetchEffect [simp]: "enabled (fetchEffect st) = enabled st"
  by (simp add: fetchEffect_def Let_def)

lemma enabled_rerender [simp]: "enabled (rerender st) = enabled st"
  by (simp add: rerender_def Let_def)

lemma spots_effects [simp]:
  "spots (fetchCleanup st) = spots st \<and> stats (fetchCleanup st) = stats st"
  "spots (fetchRBNSpots_start st) = spots st \<and> stats (fetchRBNSpots_start st) = stats st"
  "spots (controlCleanupRun st) = spots st \<and> stats (controlCleanupRun st) = stats st"
  "spots (controlEffect st) = spots st \<and> stats (controlEffect st) = stats st"
  "spots (renderEffect st) = spots st \<and> stats (renderEffect st) = stats st"
  "spots (disableEffect st) = spots st \<and> stats (disableEffect st) = stats st"
  by (simp_all add: fetchCleanup_def fetchRBNSpots_start_def controlCleanupRun_def
      controlEffect_def renderEffect_def disableEffect_def clearLayers_def console_log_def Let_def
      split: option.splits jsval.splits)

lemma spots_fetchEffect [simp]:
  "spots (fetchEffect st) = spots st \<and> stats (fetchEffect st) = stats st"
  by (simp add: fetchEffect_def Let_def)

lemma spots_rerender [simp]:
  "spots (rerender st) = spots st \<and> stats (rerender st) = stats st"
  by (simp add: rerender_def Let_def)

text \<open>While the overlay is disabled no effect draws, and the fourth effect clears.\<close>

lemma layersRef_effects [simp]:
  "layersRef (fetchCleanup st) = layersRef st"
  "layersRef (fetchRBNSpots_start st) = layersRef st"
  "layersRef (controlCleanupRun st) = layersRef st"
  "layersRef (controlEffect st) = layersRef st"
  by (simp_all add: fetchCleanup_def fetchRBNSpots_start_def controlCleanupRun_def
      controlEffect_def console_log_def Let_def split: option.splits jsval.splits)

lemma layersRef_fetchEffect [simp]: "layersRef (fetchEffect st) = layersRef st"
  by (simp add: fetchEffect_def Let_def)

lemma renderEffect_disabled [simp]: "\<not> enabled st \<Longrightarrow> renderEffect st = st"
  by (simp add: renderEffect_def)

lemma disableEffect_disabled [simp]: "\<not> enabled st \<Longrightarrow> layersRef (disableEffect st) = []"
  by (simp add: disableEffect_def Let_def split: option.splits)

lemma layersRef_rerender_disabled:
  assumes "\<not> enabled st"
    and "layersRef st = [] \<or> DEnabled \<in> set (dirty st) \<or> DMap \<in> set (dirty st)"
  shows "layersRef (rerender st) = []"
proof (cases "depends [DEnabled, DMap] (dirty st)")
  case True
  then show ?thesis using assms(1) by (simp add: rerender_def Let_def)
next
  case False
  then have "layersRef st = []" using assms(2) by (auto simp: depends_def)
  then show ?thesis using assms(1) False
    by (simp add: rerender_def Let_def disableEffect_def)
qed

lemma consistent_rerender:
  assumes "synced st"
    and "enabled st \<or> layersRef st = [] \<or> DEnabled \<in> set (dirty st) \<or> DMap \<in> set (dirty st)"
  shows "consistent (rerender st)"
  using assms synced_rerender[of st] dirty_rerender[of st] layersRef_rerender_disabled[of st]
  by (auto simp: consistent_def)

subsection \<open>What a settled retrieval changes\<close>

lemma resume_failed:
  "retrieval_failed resp \<Longrightarrow>
   fetchRBNSpots_resume req resp now st = (Fulfilled, console_log (FetchError (failure resp)) st)"
  by (cases resp) (auto simp: fetchRBNSpots_resume_def fetch_try_def split: body.splits)

lemma resume_Fulfilled: "fst (fetchRBNSpots_resume req resp now st) = Fulfilled"
  by (simp add: fetchRBNSpots_resume_def split: sum.splits prod.splits)

lemma resume_success:
  "ok status \<Longrightarrow> those data = Some objs \<Longrightarrow>
   fetchRBNSpots_resume req (Response status (Json (JArray data))) now st =
     (Fulfilled,
      setStats (computeStats (recentSpots now (req_timeWindow req) objs))
        (setSpots (recentSpots now (req_timeWindow req) objs) (console_log (Received (length data)) st)))"
  by (simp add: fetchRBNSpots_resume_def fetch_try_def Let_def)

lemma resume_keeps:
  "synced st \<Longrightarrow> synced (snd (fetchRBNSpots_resume req resp now st))"
  "enabled (snd (fetchRBNSpots_resume req resp now st)) = enabled st"
  "layersRef (snd (fetchRBNSpots_resume req resp now st)) = layersRef st"
  by (auto simp: fetchRBNSpots_resume_def fetch_try_def synced_def console_log_def setSpots_def
      setStats_def Let_def
      split: response.splits body.splits json.splits option.splits sum.splits prod.splits)

lemma fetchSettled_snd:
  "snd (fetchSettled req resp now st) =
   rerender (snd (fetchRBNSpots_resume req resp now (st\<lparr> pending := remove1 req (pending st) \<rparr>)))"
  by (simp add: fetchSettled_def split: prod.splits)

lemma consistent_fetchSettled:
  assumes "consistent st"
  shows "consistent (snd (fetchSettled req resp now st))"
proof -
  let ?s = "st\<lparr> pending := remove1 req (pending st) \<rparr>"
  have s: "synced ?s" "enabled ?s = enabled st" "layersRef ?s = layersRef st"
    using assms by (simp_all add: consistent_def synced_def)
  show ?thesis
    unfolding fetchSettled_snd
    using assms s resume_keeps[where st = ?s and req = req and resp = resp and now = now]
    by (intro consistent_rerender) (auto simp: consistent_def)
qed

subsection \<open>Every state of the hook is consistent\<close>

lemma consistent_mount: "consistent (mount en op cs home)"
  unfolding mount_def
  by (rule consistent_rerender) (simp_all add: synced_def)

lemma consistent_update:
  assumes "consistent st"
    and "synced st'" and "enabled st' \<or> layersRef st' = [] \<or> DEnabled \<in> set (dirty st')"
  shows "consistent (if c then st else rerender st')"
  using assms(1) consistent_rerender[OF assms(2)] assms(3) by auto

lemma consistent_prop:
  assumes "consistent st"
  shows "consistent (setEnabled b st)"
    and "consistent (setSelectedBand v st)"
    and "consistent (setTimeWindow w st)"
    and "consistent (setMinSNR m st)"
    and "consistent (setShowPaths p st)"
    and "consistent (setCallsign c st)"
    and "consistent (setOpacity o' st)"
  unfolding setEnabled_def setSelectedBand_def setTimeWindow_def setMinSNR_def setShowPaths_def
    setCallsign_def setOpacity_def
  using assms
  by (intro consistent_update; simp add: consistent_def synced_def)+

lemma consistent_tick: "consistent st \<Longrightarrow> consistent (intervalTick t st)"
  using synced_start[of st] by (simp add: consistent_def intervalTick_def)

lemma reachable_consistent: "reachable st \<Longrightarrow> consistent st"
proof (induction rule: reachable.induct)
  case (r_mount en op cs home)
  show ?case by (rule consistent_mount)
next
  case (r_settled st req resp now)
  then show ?case by (simp add: consistent_fetchSettled)
qed (simp_all add: consistent_prop consistent_tick)
subsection \<open>The example session\<close>

lemmas effects_eval = rerender_def depends_def disableEffect_def controlEffect_def
  renderEffect_def fetchEffect_def fetchCleanup_def controlCleanupRun_def clearLayers_def
  fetchRBNSpots_start_def callsign_valid_def console_log_def Let_def addControl_def removeControl_def

lemma example_mounted_state:
  "pending example_mounted = [example_request]"
  "spots example_mounted = []"
  "stats example_mounted = \<lparr> total_spots = 0, skimmers = 0, avgSNR = Fin 0 \<rparr>"
  "enabled example_mounted"
  "timers example_mounted = [1]"
  "console example_mounted = [Fetching ''W1AW'']"
  "map_layers (lmap example_mounted) = []"
  by (simp_all add: example_mounted_def example_request_def mount_def effects_eval)

lemma example_recent:
  "those [Some example_spot] = Some [example_spot]"
  "recentSpots 1700000000000 30 [example_spot] = [example_spot]"
  "computeStats [example_spot] = \<lparr> total_spots = 1, skimmers = 1, avgSNR = Fin 15 \<rparr>"
  by (simp_all add: recentSpots_def example_spot_def js_or_def jsgt_def stats_eval)

lemma example_filter: "spot_filter ''All'' (- 10) example_spot"
  by (simp add: spot_filter_def spot_snr_def example_spot_def js_or_def or_zero_def)

lemma example_drawn: "showPaths st \<Longrightarrow> length (renderSpot st home example_spot) = 2"
  by (simp add: renderSpot_def example_spot_def js_or_def truthy_str_def Let_def
      grid_eval toUpperChar_def)

lemma enabled_setEnabled [simp]: "enabled (setEnabled b st) = b"
  by (auto simp: setEnabled_def)

lemma spots_setEnabled [simp]:
  "spots (setEnabled b st) = spots st \<and> stats (setEnabled b st) = stats st"
  by (simp add: setEnabled_def)

lemma spots_fetchSettled_success:
  assumes "ok status" and "those data = Some objs"
  shows "spots (snd (fetchSettled req (Response status (Json (JArray data))) now st))
           = recentSpots now (req_timeWindow req) objs \<and>
         stats (snd (fetchSettled req (Response status (Json (JArray data))) now st))
           = computeStats (recentSpots now (req_timeWindow req) objs)"
  unfolding fetchSettled_snd resume_success[OF assms]
  by (simp add: setStats_def setSpots_def)

subsection \<open>A retrieval that fails\<close>

text \<open>
  Claim C9: in every state of the hook, when a retrieval fails (the network fails, the
  status is not 2xx, or the body does not parse) the promise of \<^verbatim>\<open>fetchRBNSpots\<close> is
  fulfilled, not rejected, and the state afterwards is the state before with the
  retrieval no longer in flight and one more entry on the console, the report of the
  failure: the retained spots, the statistics and the map are as they were.
\<close>

theorem failed_retrieval_keeps_state:
  assumes "reachable st" and "retrieval_failed resp"
  shows "fetchSettled req resp now st =
           (Fulfilled, st\<lparr> pending := remove1 req (pending st),
                            console := console st @ [FetchError (failure resp)] \<rparr>) \<and>
         spots (snd (fetchSettled req resp now st)) = spots st \<and>
         stats (snd (fetchSettled req resp now st)) = stats st \<and>
         lmap (snd (fetchSettled req resp now st)) = lmap st"
proof -
  have d: "dirty st = []"
    using reachable_consistent[OF assms(1)] by (simp add: consistent_def)
  have "fetchSettled req resp now st =
          (Fulfilled, st\<lparr> pending := remove1 req (pending st),
                           console := console st @ [FetchError (failure resp)] \<rparr>)"
    using d by (simp add: fetchSettled_def resume_failed[OF assms(2)] console_log_def rerender_idle)
  then show ?thesis by simp
qed

theorem failed_retrieval_keeps_state_witness:
  "spots (snd (fetchSettled example_request example_response 1700000000000 example_mounted))
     = [example_spot] \<and>
   fetchSettled example_request (Response 503 BadJson) 1700000120000
     (intervalTick 1 (snd (fetchSettled example_request example_response 1700000000000 example_mounted)))
   = (Fulfilled,
      (intervalTick 1 (snd (fetchSettled example_request example_response 1700000000000 example_mounted)))
        \<lparr> pending := [],
          console := [Fetching ''W1AW'', Received 1, Rendering 1, Fetching ''W1AW'',
                      FetchError (ApiError 503)] \<rparr>) \<and>
   spots (snd (fetchSettled example_request (Response 503 BadJson) 1700000120000
     (intervalTick 1 (snd (fetchSettled example_request example_response 1700000000000 example_mounted)))))
     = [example_spot]"
proof -
  let ?a = "snd (fetchSettled example_request example_response 1700000000000 example_mounted)"
  let ?b = "intervalTick 1 ?a"
  have ra: "reachable ?a"
    unfolding example_mounted_def
    by (rule r_settled[OF r_mount])
       (simp add: example_mounted_state(1)[unfolded example_mounted_def])
  have rb: "reachable ?b" by (rule r_tick[OF ra])
  have f: "retrieval_failed (Response 503 BadJson)" by (simp add: ok_def)
  have sa: "spots ?a = [example_spot]"
    unfolding example_response_def
    using spots_fetchSettled_success[of 200 "[Some example_spot]" "[example_spot]"
        example_request 1700000000000 example_mounted]
    by (simp add: ok_def example_recent example_request_def)
  have ta: "timers ?a = [1]" "pending ?a = []"
      "console ?a = [Fetching ''W1AW'', Received 1, Rendering 1]"
      "callsign_prop ?a = Val ''W1AW''" "timeWindow ?a = 30"
    unfolding fetchSettled_snd example_response_def
      resume_success[of 200 "[Some example_spot]" "[example_spot]", simplified ok_def example_recent, simplified]
    by (simp_all add: example_mounted_def example_request_def mount_def effects_eval
        setStats_def setSpots_def example_recent example_filter)
  have sb: "spots ?b = [example_spot]" "pending ?b = [example_request]"
      "console ?b = [Fetching ''W1AW'', Received 1, Rendering 1, Fetching ''W1AW'']"
    using sa ta
    by (simp_all add: intervalTick_def fetchRBNSpots_start_def callsign_valid_def console_log_def
        example_request_def)
  show ?thesis
    using failed_retrieval_keeps_state[OF rb f, of example_request 1700000120000] sa sb
    by (simp add: ok_def)
qed

subsection \<open>A response that arrives after the overlay was disabled\<close>

text \<open>
  Claim C3, as the specification states it: when the overlay is disabled while a
  retrieval is in flight, the late response is discarded, the enabled state being checked
  before its results are committed. The code has no such check. In the example session
  the overlay is mounted enabled, which starts a retrieval, and is then disabled; the
  response arrives afterwards, and its record becomes the retained set and its
  statistics the statistics, while the overlay is disabled.
\<close>

theorem late_response_committed_counterexample:
  "pending example_mounted = [example_request] \<and>
   \<not> enabled (setEnabled False example_mounted) \<and>
   spots (setEnabled False example_mounted) = [] \<and>
   \<not> enabled (snd (fetchSettled example_request example_response 1700000000000
                    (setEnabled False example_mounted))) \<and>
   spots (snd (fetchSettled example_request example_response 1700000000000
                    (setEnabled False example_mounted))) = [example_spot] \<and>
   stats (snd (fetchSettled example_request example_response 1700000000000
                    (setEnabled False example_mounted)))
     = \<lparr> total_spots = 1, skimmers = 1, avgSNR = Fin 15 \<rparr>"
proof -
  have s: "spots (snd (fetchSettled example_request example_response 1700000000000
                    (setEnabled False example_mounted))) = [example_spot] \<and>
           stats (snd (fetchSettled example_request example_response 1700000000000
                    (setEnabled False example_mounted)))
             = \<lparr> total_spots = 1, skimmers = 1, avgSNR = Fin 15 \<rparr>"
    unfolding example_response_def
    using spots_fetchSettled_success[of 200 "[Some example_spot]" "[example_spot]"
        example_request 1700000000000 "setEnabled False example_mounted"]
    by (simp add: ok_def example_recent example_request_def)
  have e: "\<not> enabled (snd (fetchSettled example_request example_response 1700000000000
                    (setEnabled False example_mounted)))"
    by (simp add: fetchSettled_snd resume_keeps)
  show ?thesis
    using s e by (simp add: example_mounted_state)
qed

text \<open>
  Claim C3, amended: in every state of the hook, when the overlay is disabled and a
  response arrives afterwards, the response is not discarded: if it is a 2xx response
  with an array of records, the records inside the time window become the retained set
  and their statistics the statistics, as they would with the overlay enabled. The redraw
  pass returns at once while the overlay is disabled, so whatever the response is, no
  layer is on the map and none is tracked after it has been handled.
\<close>

theorem late_response_draws_nothing:
  assumes "reachable st"
  shows "map_layers (lmap (snd (fetchSettled req resp now (setEnabled False st)))) = [] \<and>
         layersRef (snd (fetchSettled req resp now (setEnabled False st))) = [] \<and>
         \<not> enabled (snd (fetchSettled req resp now (setEnabled False st))) \<and>
         (ok status \<and> those data = Some objs \<longrightarrow>
            spots (snd (fetchSettled req (Response status (Json (JArray data))) now
                          (setEnabled False st)))
              = recentSpots now (req_timeWindow req) objs \<and>
            stats (snd (fetchSettled req (Response status (Json (JArray data))) now
                          (setEnabled False st)))
              = computeStats (recentSpots now (req_timeWindow req) objs))"
proof -
  let ?d = "setEnabled False st"
  let ?e = "snd (fetchSettled req resp now ?d)"
  have "consistent ?d"
    using reachable_consistent[OF r_enabled[OF assms]] .
  then have c: "consistent ?e" by (rule consistent_fetchSettled)
  have e: "\<not> enabled ?e" by (simp add: fetchSettled_snd resume_keeps)
  have l: "layersRef ?e = []" "map_layers (lmap ?e) = []"
    using c e by (simp_all add: consistent_def synced_def)
  show ?thesis
    using l e spots_fetchSettled_success by blast
qed

theorem late_response_draws_nothing_witness:
  "map_layers (lmap (snd (fetchSettled example_request example_response 1700000000000
                       (setEnabled False example_mounted)))) = [] \<and>
   layersRef (snd (fetchSettled example_request example_response 1700000000000
                       (setEnabled False example_mounted))) = [] \<and>
   spots (snd (fetchSettled example_request example_response 1700000000000
                       (setEnabled False example_mounted))) = [example_spot] \<and>
   length (map_layers (lmap (snd (fetchSettled example_request example_response 1700000000000
                       example_mounted)))) = 2"
proof -
  have r: "reachable example_mounted"
    unfolding example_mounted_def by (rule r_mount)
  have t: "those [Some example_spot] = Some [example_spot]" by simp
  have n: "length (map_layers (lmap (snd (fetchSettled example_request example_response
              1700000000000 example_mounted)))) = 2"
    unfolding fetchSettled_snd example_response_def
      resume_success[of 200 "[Some example_spot]" "[example_spot]", simplified ok_def example_recent, simplified]
    by (simp add: example_mounted_def example_request_def mount_def effects_eval
        setStats_def setSpots_def fold_addLayer example_recent example_filter example_drawn)
  show ?thesis
    using late_response_draws_nothing[OF r, of example_request example_response 1700000000000
        200 "[Some example_spot]" "[example_spot]"] n
    by (simp add: ok_def example_response_def example_recent example_request_def)
qed

end
